theory Spec2Isabelle
  imports Complex_Main "HOL-Library.AList"
begin

section \<open>JavaScript values\<close>

text \<open>
  The pages exchange JSON with the backend and keep the parsed values in their state
  without validating them, so table rows, response bodies and edited data are modelled
  as JSON values. An object is an association list read with \<open>map_of\<close>; the value
  \<open>undefined\<close> is \<open>None\<close> of \<open>json option\<close>. Numbers are reals (every double that
  JSON can denote is one).
\<close>

datatype json =
    JNull
  | JBool bool
  | JNum real
  | JStr string
  | JArr "json list"
  | JObj "(string \<times> json) list"

type_synonym obj = "(string \<times> json) list"

text \<open>What JavaScript throws in the modelled code.\<close>

datatype js_error =
    Error json          \<comment> \<open>\<open>new Error(x)\<close>: the message is \<open>String(x)\<close>\<close>
  | TypeError           \<comment> \<open>a property read on \<open>undefined\<close> or \<open>null\<close>\<close>
  | SyntaxError         \<comment> \<open>\<open>JSON.parse\<close> or \<open>response.json()\<close> on text that is not JSON\<close>
  | FetchRejected       \<comment> \<open>the rejection of \<open>fetch\<close> when the network fails\<close>

text \<open>ToBoolean: \<open>undefined\<close>, \<open>null\<close>, \<open>false\<close>, \<open>0\<close> and \<open>""\<close> are falsy.\<close>

fun truthy :: "json option \<Rightarrow> bool" where
  "truthy None = False"
| "truthy (Some JNull) = False"
| "truthy (Some (JBool b)) = b"
| "truthy (Some (JNum r)) = (r \<noteq> 0)"
| "truthy (Some (JStr s)) = (s \<noteq> [])"
| "truthy (Some (JArr xs)) = True"
| "truthy (Some (JObj kvs)) = True"

text \<open>\<open>a || b\<close>\<close>

definition or_js :: "json option \<Rightarrow> json option \<Rightarrow> json option" where
  "or_js a b = (if truthy a then a else b)"

text \<open>
  \<open>v?.k\<close> for one of the keys the pages read (\<open>_id\<close>, \<open>detail\<close>, \<open>message\<close>,
  \<open>recommendations\<close>, ...): an object gives its property, \<open>undefined\<close> and \<open>null\<close>
  give \<open>undefined\<close>, and so do primitives and arrays, which have no property of these
  names.
\<close>

fun opt_prop :: "json option \<Rightarrow> string \<Rightarrow> json option" where
  "opt_prop (Some (JObj kvs)) k = map_of kvs k"
| "opt_prop _ k = None"

text \<open>\<open>v.k\<close> without the question mark throws on \<open>undefined\<close> and \<open>null\<close>.\<close>

fun get_prop :: "json option \<Rightarrow> string \<Rightarrow> js_error + json option" where
  "get_prop None k = Inl TypeError"
| "get_prop (Some JNull) k = Inl TypeError"
| "get_prop (Some v) k = Inr (opt_prop (Some v) k)"

text \<open>Decimal text of a natural number, as a template literal prints it.\<close>

fun show_nat :: "nat \<Rightarrow> string" where
  "show_nat n =
     (if n < 10 then [''0123456789'' ! n]
      else show_nat (n div 10) @ [''0123456789'' ! (n mod 10)])"

declare show_nat.simps [simp del]

text \<open>
  The own enumerable properties that \<open>{...v}\<close> copies: those of an object, the indexed
  elements of an array, the indexed characters of a string, none for other values.
\<close>

fun own_props :: "json \<Rightarrow> obj" where
  "own_props (JObj kvs) = kvs"
| "own_props (JArr xs) = map (\<lambda>(i, x). (show_nat i, x)) (enumerate 0 xs)"
| "own_props (JStr s) = map (\<lambda>(i, c). (show_nat i, JStr [c])) (enumerate 0 s)"
| "own_props _ = []"

text \<open>\<open>{...a, ...b}\<close>: the properties of \<open>a\<close>, overridden and extended by those of \<open>b\<close>.\<close>

definition spread :: "obj \<Rightarrow> obj \<Rightarrow> obj" where
  "spread a b = AList.merge a b"

text \<open>
  \<open>{...o, k: v}\<close>. A property holding \<open>undefined\<close> reads like an absent one, so it is
  removed.
\<close>

definition set_prop :: "string \<Rightarrow> json option \<Rightarrow> obj \<Rightarrow> obj" where
  "set_prop k v ob = (case v of None \<Rightarrow> AList.delete k ob | Some j \<Rightarrow> AList.update k j ob)"

text \<open>\<open>xs[i]\<close> is \<open>undefined\<close> out of range.\<close>

definition item_at :: "'a list \<Rightarrow> nat \<Rightarrow> 'a option" where
  "item_at xs i = (if i < length xs then Some (xs ! i) else None)"

text \<open>\<open>prev.filter((_, idx) => idx !== rowIndex)\<close>\<close>

definition remove_at :: "nat \<Rightarrow> 'a list \<Rightarrow> 'a list" where
  "remove_at i xs = map snd (filter (\<lambda>(idx, x). idx \<noteq> i) (enumerate 0 xs))"

section \<open>Mutation coordinator: the behaviour and catalog pages\<close>

text \<open>
  A handler awaits one API call. The model takes the outcome of that call as the
  argument \<open>remote\<close> (\<open>Inl\<close> a thrown error, \<open>Inr\<close> the parsed response) and records
  the call itself, the toasts and the new list in the page state. The request body is
  recorded with the arguments of \<open>String(...)\<close> and \<open>Number(...)\<close> before coercion.
  The functional updates \<open>setBehaviour((prev) => ...)\<close> are applied to the list the
  handler was created with: no other update of the list is taken to happen while the call
  is awaited. The loading flags (\<open>isLoading\<close>, \<open>isRefreshing\<close>) and the console
  output are left out.
\<close>

datatype coerced = StringOf "json option" | NumberOf "json option" | Plain "json option"

datatype api_call =
    UpdateBehavior "json option" "(string \<times> coerced) list"
  | DeleteBehavior "json option"
  | AddBehavior "(string \<times> coerced) list"
  | UpdateProduct "json option" "(string \<times> coerced) list"
  | DeleteProduct "json option"
  | AddProduct "(string \<times> coerced) list"

datatype descr = Literal string | MessageOf js_error

datatype toast =
    ToastSuccess string
  | ToastError string "descr option"

text \<open>\<open>error instanceof Error ? error.message : fallback\<close>: every \<open>js_error\<close> is an Error.\<close>

definition describe :: "js_error \<Rightarrow> string \<Rightarrow> descr option" where
  "describe e fallback = Some (MessageOf e)"

record behaviour_page =
  behaviour :: "json list"
  b_toasts :: "toast list"
  b_calls :: "api_call list"

definition set_row :: "nat \<Rightarrow> obj \<Rightarrow> json list \<Rightarrow> json list" where
  \<comment> \<open>\<open>updated = [...prev]; updated[rowIndex] = {...prev[rowIndex], ...data}\<close>;
      the handlers reach it with \<open>rowIndex\<close> in range only\<close>
  "set_row rowIndex data prev = prev[rowIndex := JObj (spread (own_props (prev ! rowIndex)) data)]"

definition behaviorData :: "obj \<Rightarrow> json option \<Rightarrow> (string \<times> coerced) list" where
  \<comment> \<open>the request body of \<open>handleUpdate\<close>\<close>
  "behaviorData data item =
     [(''user_id'', StringOf (or_js (map_of data ''user_id'') (opt_prop item ''user_id''))),
      (''product_id'', StringOf (map_of data ''product_id'')),
      (''action'', StringOf (map_of data ''action'')),
      (''timestamp'', StringOf (map_of data ''timestamp''))]"

definition b_handleUpdate ::
  "nat \<Rightarrow> obj \<Rightarrow> js_error + json \<Rightarrow> behaviour_page \<Rightarrow> behaviour_page \<times> js_error option" where
  "b_handleUpdate rowIndex data remote st =
     (let item = item_at (behaviour st) rowIndex in
      case get_prop item ''_id'' of
        Inl e \<Rightarrow> (st, Some e)
      | Inr item_id \<Rightarrow>
          let behaviorId = or_js (or_js item_id (opt_prop item ''behavior_id''))
                                 (opt_prop item ''user_id'') in
          if \<not> truthy item_id then
            (st\<lparr>b_toasts := b_toasts st @
                 [ToastError ''Cannot update: Missing _id field''
                    (Some (Literal ''Please refresh the page to load the latest data with IDs''))]\<rparr>,
             None)
          else
            let st1 = st\<lparr>b_calls := b_calls st @
                        [UpdateBehavior behaviorId (behaviorData data item)]\<rparr>
            in case remote of
                 Inr res \<Rightarrow>
                   (st1\<lparr>behaviour := set_row rowIndex data (behaviour st1),
                        b_toasts := b_toasts st1 @ [ToastSuccess ''Behavior updated successfully'']\<rparr>,
                    None)
               | Inl err \<Rightarrow>
                   (st1\<lparr>b_toasts := b_toasts st1 @
                          [ToastError ''Failed to update behavior'' (describe err ''Please try again'')],
                        behaviour := set_row rowIndex data (behaviour st1)\<rparr>,
                    None))"

definition b_handleDelete ::
  "nat \<Rightarrow> js_error + json \<Rightarrow> behaviour_page \<Rightarrow> behaviour_page \<times> js_error option" where
  "b_handleDelete rowIndex remote st =
     (let item = item_at (behaviour st) rowIndex in
      case get_prop item ''_id'' of
        Inl e \<Rightarrow> (st, Some e)
      | Inr item_id \<Rightarrow>
          let behaviorId = or_js (or_js item_id (opt_prop item ''behavior_id''))
                                 (opt_prop item ''user_id'') in
          if \<not> truthy item_id then
            (st\<lparr>b_toasts := b_toasts st @
                 [ToastError ''Cannot delete: Missing _id field''
                    (Some (Literal ''Please refresh the page to load the latest data with IDs''))]\<rparr>,
             None)
          else
            let st1 = st\<lparr>b_calls := b_calls st @ [DeleteBehavior behaviorId]\<rparr>
            in case remote of
                 Inr res \<Rightarrow>
                   (st1\<lparr>behaviour := remove_at rowIndex (behaviour st1),
                        b_toasts := b_toasts st1 @ [ToastSuccess ''Behavior deleted successfully'']\<rparr>,
                    None)
               | Inl err \<Rightarrow>
                   (st1\<lparr>b_toasts := b_toasts st1 @
                          [ToastError ''Failed to delete behavior'' (describe err ''Please try again'')],
                        behaviour := remove_at rowIndex (behaviour st1)\<rparr>,
                    None))"

definition b_handleAddFromDialog ::
  "obj \<Rightarrow> js_error + json \<Rightarrow> behaviour_page \<Rightarrow> behaviour_page \<times> js_error option" where
  "b_handleAddFromDialog data remote st =
     (let fields = [''user_id'', ''product_id'', ''action'', ''timestamp''];
          st1 = st\<lparr>b_calls := b_calls st @
                   [AddBehavior (map (\<lambda>k. (k, Plain (map_of data k))) fields)]\<rparr>
      in case remote of
           Inr result \<Rightarrow>
             let behaviorData = fold (\<lambda>k ob. set_prop k (map_of data k) ob) fields [];
                 newBehavior =
                   set_prop ''_id'' (opt_prop (Some result) ''_id'')
                     (set_prop ''behavior_id'' (opt_prop (Some result) ''behavior_id'') behaviorData)
             in (st1\<lparr>behaviour := behaviour st1 @ [JObj newBehavior],
                     b_toasts := b_toasts st1 @ [ToastSuccess ''Behavior added successfully'']\<rparr>,
                 None)
         | Inl err \<Rightarrow>
             (st1\<lparr>b_toasts := b_toasts st1 @
                    [ToastError ''Failed to add behavior'' (describe err ''Please try again'')]\<rparr>,
              Some err))"

record catalog_page =
  catalog :: "json list"
  c_toasts :: "toast list"
  c_calls :: "api_call list"

definition productData :: "obj \<Rightarrow> json option \<Rightarrow> (string \<times> coerced) list" where
  \<comment> \<open>the request body of \<open>handleUpdate\<close>\<close>
  "productData data productId =
     [(''product_id'', Plain productId),
      (''name'', StringOf (map_of data ''name'')),
      (''brand'', StringOf (map_of data ''brand'')),
      (''category'', StringOf (map_of data ''category'')),
      (''price'', NumberOf (map_of data ''price'')),
      (''rating'', NumberOf (map_of data ''rating'')),
      (''features'', StringOf (map_of data ''features''))]"

definition c_handleUpdate ::
  "nat \<Rightarrow> obj \<Rightarrow> js_error + json \<Rightarrow> catalog_page \<Rightarrow> catalog_page \<times> js_error option" where
  "c_handleUpdate rowIndex data remote st =
     (let item = item_at (catalog st) rowIndex in
      case get_prop item ''product_id'' of
        Inl e \<Rightarrow> (st, Some e)
      | Inr productId \<Rightarrow>
          let st1 = st\<lparr>c_calls := c_calls st @
                      [UpdateProduct productId (productData data productId)]\<rparr>
          in case remote of
               Inr res \<Rightarrow>
                 (st1\<lparr>catalog := (catalog st1)[rowIndex := JObj (set_prop ''product_id'' productId data)],
                      c_toasts := c_toasts st1 @ [ToastSuccess ''Product updated successfully'']\<rparr>,
                  None)
             | Inl err \<Rightarrow>
                 (st1\<lparr>c_toasts := c_toasts st1 @
                        [ToastError ''Failed to update product'' (describe err ''Please try again'')],
                      catalog := set_row rowIndex data (catalog st1)\<rparr>,
                  None))"

definition c_handleDelete ::
  "nat \<Rightarrow> js_error + json \<Rightarrow> catalog_page \<Rightarrow> catalog_page \<times> js_error option" where
  "c_handleDelete rowIndex remote st =
     (let item = item_at (catalog st) rowIndex in
      case get_prop item ''product_id'' of
        Inl e \<Rightarrow> (st, Some e)
      | Inr productId \<Rightarrow>
          let st1 = st\<lparr>c_calls := c_calls st @ [DeleteProduct productId]\<rparr>
          in case remote of
               Inr res \<Rightarrow>
                 (st1\<lparr>catalog := remove_at rowIndex (catalog st1),
                      c_toasts := c_toasts st1 @ [ToastSuccess ''Product deleted successfully'']\<rparr>,
                  None)
             | Inl err \<Rightarrow>
                 (st1\<lparr>c_toasts := c_toasts st1 @
                        [ToastError ''Failed to delete product'' (describe err ''Please try again'')],
                      catalog := remove_at rowIndex (catalog st1)\<rparr>,
                  None))"

definition c_handleAddFromDialog ::
  "obj \<Rightarrow> js_error + json \<Rightarrow> catalog_page \<Rightarrow> catalog_page \<times> js_error option" where
  "c_handleAddFromDialog data remote st =
     (let fields = [''product_id'', ''name'', ''brand'', ''category'', ''price'', ''rating'', ''features''];
          st1 = st\<lparr>c_calls := c_calls st @
                   [AddProduct (map (\<lambda>k. (k, Plain (map_of data k))) fields)]\<rparr>
      in case remote of
           Inr result \<Rightarrow>
             let productData = fold (\<lambda>k ob. set_prop k (map_of data k) ob) fields [];
                 newProduct =
                   set_prop ''product_id''
                     (or_js (opt_prop (Some result) ''product_id'') (map_of data ''product_id''))
                     productData
             in (st1\<lparr>catalog := catalog st1 @ [JObj newProduct],
                     c_toasts := c_toasts st1 @ [ToastSuccess ''Product added successfully'']\<rparr>,
                 None)
         | Inl err \<Rightarrow>
             (st1\<lparr>c_toasts := c_toasts st1 @
                    [ToastError ''Failed to add product'' (describe err ''Please try again'')]\<rparr>,
              Some err))"


section \<open>Response normalisation in the list fetches\<close>

text \<open>\<open>Array.isArray(v)\<close>, and the elements of the array.\<close>

fun isArray :: "json option \<Rightarrow> bool" where
  "isArray (Some (JArr xs)) = True"
| "isArray _ = False"

fun elements :: "json option \<Rightarrow> json list" where
  "elements (Some (JArr xs)) = xs"
| "elements _ = []"

text \<open>
  \<open>fetchBehaviors\<close> of the behaviour page: \<open>behaviorsList\<close> starts empty and is
  what \<open>setBehaviour\<close> receives.
\<close>

definition behaviorsList :: "json \<Rightarrow> json list" where
  "behaviorsList data =
     (if isArray (Some data) then elements (Some data)
      else if truthy (opt_prop (Some data) ''behaviors'') \<and> isArray (opt_prop (Some data) ''behaviors'')
        then elements (opt_prop (Some data) ''behaviors'')
      else if truthy (opt_prop (Some data) ''data'') \<and> isArray (opt_prop (Some data) ''data'')
        then elements (opt_prop (Some data) ''data'')
      else [])"

definition fetchBehaviors :: "bool \<Rightarrow> js_error + json \<Rightarrow> behaviour_page \<Rightarrow> behaviour_page" where
  "fetchBehaviors showToast remote st =
     (case remote of
        Inr data \<Rightarrow>
          st\<lparr>behaviour := behaviorsList data,
             b_toasts := b_toasts st @
               (if showToast then [ToastSuccess ''Behaviors refreshed successfully''] else [])\<rparr>
      | Inl err \<Rightarrow>
          st\<lparr>b_toasts := b_toasts st @
               (if showToast
                then [ToastError ''Failed to fetch behaviors'' (describe err ''Using local data'')]
                else [])\<rparr>)"

text \<open>
  \<open>fetchProducts\<close> of the catalog page calls \<open>setCatalog\<close> inside the branches and
  has no final \<open>else\<close>.
\<close>

definition fetchProducts :: "bool \<Rightarrow> js_error + json \<Rightarrow> catalog_page \<Rightarrow> catalog_page" where
  "fetchProducts showToast remote st =
     (case remote of
        Inr data \<Rightarrow>
          st\<lparr>catalog :=
               (if isArray (Some data) then elements (Some data)
                else if truthy (opt_prop (Some data) ''products'') \<and> isArray (opt_prop (Some data) ''products'')
                  then elements (opt_prop (Some data) ''products'')
                else if truthy (opt_prop (Some data) ''data'') \<and> isArray (opt_prop (Some data) ''data'')
                  then elements (opt_prop (Some data) ''data'')
                else catalog st),
             c_toasts := c_toasts st @
               (if showToast then [ToastSuccess ''Products refreshed successfully''] else [])\<rparr>
      | Inl err \<Rightarrow>
          st\<lparr>c_toasts := c_toasts st @
               (if showToast
                then [ToastError ''Failed to fetch products'' (describe err ''Using local data'')]
                else [])\<rparr>)"

text \<open>
  \<open>fetchStoredRecommendations\<close> of the dashboard's recommendations page: the list and
  the explanation it keeps.
\<close>

record dashboard_page =
  d_recommendations :: "json list"
  d_explanation :: json

definition fetchStoredRecommendations :: "js_error + json \<Rightarrow> dashboard_page \<Rightarrow> dashboard_page" where
  "fetchStoredRecommendations remote st =
     (case remote of
        Inr data \<Rightarrow>
          if truthy (opt_prop (Some data) ''recommendations'')
               \<and> isArray (opt_prop (Some data) ''recommendations'')
          then (let st1 = st\<lparr>d_recommendations := elements (opt_prop (Some data) ''recommendations'')\<rparr>
                in case opt_prop (Some data) ''explanation'' of
                     Some e \<Rightarrow> if truthy (Some e) then st1\<lparr>d_explanation := e\<rparr> else st1
                   | None \<Rightarrow> st1)
          else if isArray (Some data) then st\<lparr>d_recommendations := elements (Some data)\<rparr>
          else st
      | Inl err \<Rightarrow> st)"

section \<open>The API client\<close>

text \<open>
  An HTTP exchange that completed: the status line and the body as \<open>response.json()\<close>
  reads it (\<open>None\<close> when the body is not JSON). \<open>fetch\<close> itself rejects when the
  network fails: the exchange is then \<open>None\<close>.
\<close>

record response =
  status :: nat
  statusText :: string
  body :: "json option"

definition ok :: "response \<Rightarrow> bool" where
  "ok r = (200 \<le> status r \<and> status r \<le> 299)"

text \<open>\<open>v?.[0]\<close>\<close>

fun index0 :: "json option \<Rightarrow> json option" where
  "index0 (Some (JArr xs)) = (case xs of [] \<Rightarrow> None | x # _ \<Rightarrow> Some x)"
| "index0 (Some (JStr s)) = (case s of [] \<Rightarrow> None | c # _ \<Rightarrow> Some (JStr [c]))"
| "index0 (Some (JObj kvs)) = map_of kvs ''0''"
| "index0 _ = None"

text \<open>\<open>a || d\<close> where \<open>d\<close> is defined.\<close>

definition or_default :: "json option \<Rightarrow> json \<Rightarrow> json" where
  "or_default a d = (case a of Some j \<Rightarrow> if truthy (Some j) then j else d | None \<Rightarrow> d)"

text \<open>
  The argument of \<open>new Error(...)\<close> for a response that is not ok:
  \<open>errorData.detail?.[0]?.msg || errorData.detail || errorData.message || `<prefix>: <status> <statusText>`\<close>,
  where \<open>errorData\<close> is the parsed body, or \<open>{}\<close> when the body is not JSON.
  Reading \<open>detail\<close> of the body \<open>null\<close> throws a TypeError instead.
\<close>

definition error_body :: "response \<Rightarrow> json" where
  \<comment> \<open>\<open>await response.json().catch(() => ({}))\<close>\<close>
  "error_body r = (case body r of None \<Rightarrow> JObj [] | Some j \<Rightarrow> j)"

definition error_of :: "string \<Rightarrow> response \<Rightarrow> js_error" where
  "error_of prefix r =
     (case get_prop (Some (error_body r)) ''detail'' of
        Inl e \<Rightarrow> e
      | Inr detail \<Rightarrow>
          Error (or_default
                   (or_js (or_js (opt_prop (index0 detail) ''msg'') detail)
                          (opt_prop (Some (error_body r)) ''message''))
                   (JStr (prefix @ '': '' @ show_nat (status r) @ '' '' @ statusText r))))"

definition apiFetch :: "response option \<Rightarrow> js_error + json" where
  "apiFetch exchange =
     (case exchange of
        None \<Rightarrow> Inl FetchRejected
      | Some r \<Rightarrow>
          if \<not> ok r then Inl (error_of ''API Error'' r)
          else (case body r of None \<Rightarrow> Inl SyntaxError | Some j \<Rightarrow> Inr j))"

definition uploadFile :: "response option \<Rightarrow> js_error + json" where
  "uploadFile exchange =
     (case exchange of
        None \<Rightarrow> Inl FetchRejected
      | Some r \<Rightarrow>
          if \<not> ok r then Inl (error_of ''Upload Error'' r)
          else (case body r of None \<Rightarrow> Inl SyntaxError | Some j \<Rightarrow> Inr j))"

text \<open>
  The reading of "the first field that is there, else the fallback" that the code
  supports: the first truthy candidate, else the default.
\<close>

fun first_truthy :: "json option list \<Rightarrow> json \<Rightarrow> json" where
  "first_truthy [] d = d"
| "first_truthy (None # cs) d = first_truthy cs d"
| "first_truthy (Some j # cs) d = (if truthy (Some j) then j else first_truthy cs d)"

section \<open>The upload page: staging files\<close>

text \<open>
  A browser \<open>File\<close> with the fields the page reads, and the staged \<open>FileWithMeta\<close>.
  Strings are byte strings and \<open>toLowerCase\<close> maps the ASCII letters; no other
  character becomes one of \<open>.csv\<close> in lower case, so the test of the suffix is the
  source's.
\<close>

record js_file =
  file_name :: string
  file_type :: string
  file_size :: nat

record file_with_meta =
  fm_file :: js_file
  fm_id :: string
  fm_name :: string
  fm_size :: nat

definition MAX_FILE_SIZE :: nat where
  "MAX_FILE_SIZE = 5 * 1024 * 1024"

definition lower_char :: "char \<Rightarrow> char" where
  "lower_char c =
     (case map_of (zip ''ABCDEFGHIJKLMNOPQRSTUVWXYZ'' ''abcdefghijklmnopqrstuvwxyz'') c of
        None \<Rightarrow> c
      | Some d \<Rightarrow> d)"

definition toLowerCase :: "string \<Rightarrow> string" where
  "toLowerCase s = map lower_char s"

definition endsWith :: "string \<Rightarrow> string \<Rightarrow> bool" where
  "endsWith s t = (length t \<le> length s \<and> drop (length s - length t) s = t)"

definition isCSV :: "js_file \<Rightarrow> bool" where
  "isCSV f = (file_type f = ''text/csv'' \<or> endsWith (toLowerCase (file_name f)) ''.csv'')"

text \<open>
  The id is \<open>`${file.name}-${Date.now()}-${Math.random()}`\<close>. The clock and the random
  number come from the environment: \<open>stamp k\<close> is the text \<open>Date.now()-Math.random()\<close>
  for the \<open>k\<close>-th file of the selection.
\<close>

definition with_meta :: "(nat \<Rightarrow> string) \<Rightarrow> nat \<Rightarrow> js_file \<Rightarrow> file_with_meta" where
  "with_meta stamp k f =
     \<lparr>fm_file = f, fm_id = file_name f @ ''-'' @ stamp k, fm_name = file_name f, fm_size = file_size f\<rparr>"

record upload_progress =
  overall :: nat
  perFile :: "string \<rightharpoonup> nat"

record page =
  files :: "file_with_meta list"
  isUploading :: bool
  uploadProgress :: upload_progress
  recommendations :: json
  explanation :: json
  error :: json
  mockMode :: bool
  abortController :: bool          \<comment> \<open>whether the state holds a controller (not \<open>null\<close>)\<close>
  showLargeFileWarning :: bool
  pendingLargeFiles :: "js_file list"

text \<open>
  The \<open>for\<close> loop of \<open>handleFilesSelected\<close> over the selection, with its three
  accumulators \<open>validFiles\<close>, \<open>largeFiles\<close> and \<open>hasInvalidType\<close>.
\<close>

fun select_loop ::
  "(nat \<Rightarrow> string) \<Rightarrow> nat \<Rightarrow> js_file list \<Rightarrow> file_with_meta list \<times> js_file list \<times> bool
     \<Rightarrow> file_with_meta list \<times> js_file list \<times> bool" where
  "select_loop stamp k [] acc = acc"
| "select_loop stamp k (f # rest) (validFiles, largeFiles, hasInvalidType) =
     (if \<not> isCSV f then select_loop stamp (Suc k) rest (validFiles, largeFiles, True)
      else if file_size f > MAX_FILE_SIZE
        then select_loop stamp (Suc k) rest (validFiles, largeFiles @ [f], hasInvalidType)
      else select_loop stamp (Suc k) rest
             (validFiles @ [with_meta stamp k f], largeFiles, hasInvalidType))"

definition handleFilesSelected :: "(nat \<Rightarrow> string) \<Rightarrow> js_file list \<Rightarrow> page \<Rightarrow> page" where
  "handleFilesSelected stamp selectedFiles p =
     (case select_loop stamp 0 selectedFiles ([], [], False) of
        (validFiles, largeFiles, hasInvalidType) \<Rightarrow>
          let p1 = p\<lparr>error := (if hasInvalidType then JStr ''Only CSV files are allowed'' else JStr [])\<rparr>;
              p2 = (if largeFiles \<noteq> []
                    then p1\<lparr>pendingLargeFiles := largeFiles, showLargeFileWarning := True\<rparr>
                    else p1)
          in p2\<lparr>files := files p2 @ validFiles\<rparr>)"

definition handleConfirmLargeFiles :: "(nat \<Rightarrow> string) \<Rightarrow> page \<Rightarrow> page" where
  "handleConfirmLargeFiles stamp p =
     (let newFiles = map (\<lambda>(k, f). with_meta stamp k f) (enumerate 0 (pendingLargeFiles p))
      in p\<lparr>files := files p @ newFiles, pendingLargeFiles := [], showLargeFileWarning := False\<rparr>)"

definition handleCancelLargeFiles :: "page \<Rightarrow> page" where
  "handleCancelLargeFiles p = p\<lparr>pendingLargeFiles := [], showLargeFileWarning := False\<rparr>"

definition handleRemoveFile :: "string \<Rightarrow> page \<Rightarrow> page" where
  "handleRemoveFile ident p = p\<lparr>files := filter (\<lambda>f. fm_id f \<noteq> ident) (files p)\<rparr>"

section \<open>The upload page: transport\<close>

text \<open>
  \<open>handleUpload\<close> either runs the mock loop or opens one XMLHttpRequest. Both keep the
  \<open>files\<close> the handler was created with. What is under way is the transport: the mock
  loop waiting for its timer in the iteration \<open>i\<close>, or a request in flight. The page
  state and the transport together are the world the events act on.
\<close>

datatype transport =
    Idle
  | MockLoop nat "file_with_meta list"
  | XhrOpen "file_with_meta list"

record world =
  ui :: page
  transport :: transport

text \<open>\<open>mockRecommendations\<close> of \<open>@/lib/mock-data\<close>, a parameter of the model.\<close>

record mock_data =
  mock_recommendations :: json
  mock_explanation :: "json option"

text \<open>The body of \<open>xhr\<close> at \<open>load\<close>: the status, the text and what \<open>JSON.parse\<close> makes
  of the text (\<open>None\<close> when it throws).\<close>

record xhr_response =
  xhr_status :: nat
  responseText :: string
  parsed :: "json option"

text \<open>
  What the page can be told: it has no outcome type of its own, so the handler that runs
  names the outcome. \<open>Tick\<close> is a progress value written by a timer tick or a
  progress event.
\<close>

datatype outcome = Success | ServerError | NetworkError | Aborted

datatype obs = Tick upload_progress | Outcome outcome

definition no_progress :: upload_progress where
  "no_progress = \<lparr>overall = 0, perFile = Map.empty\<rparr>"

text \<open>\<open>files.forEach((f) => { perFileProgress[f.id] = i })\<close>\<close>

definition perFileProgress :: "file_with_meta list \<Rightarrow> nat \<Rightarrow> (string \<rightharpoonup> nat)" where
  "perFileProgress fs i = fold (\<lambda>f m. m(fm_id f \<mapsto> i)) fs Map.empty"

definition progress_at :: "file_with_meta list \<Rightarrow> nat \<Rightarrow> upload_progress" where
  "progress_at fs i = \<lparr>overall = i, perFile = perFileProgress fs i\<rparr>"

definition canUpload :: "page \<Rightarrow> bool" where
  "canUpload p = (files p \<noteq> [] \<and> \<not> isUploading p)"

text \<open>
  \<open>handleUpload\<close> up to its first suspension. The button that calls it is disabled
  unless \<open>canUpload\<close>, so it runs with no transport under way.
\<close>

definition handleUpload :: "world \<Rightarrow> world" where
  "handleUpload w =
     (let p = ui w in
      if files p = [] then w
      else
        let p1 = p\<lparr>error := JStr [], recommendations := JArr [], explanation := JStr []\<rparr> in
        if mockMode p then
          w\<lparr>ui := p1\<lparr>isUploading := True, uploadProgress := no_progress\<rparr>,
            transport := MockLoop 0 (files p)\<rparr>
        else
          w\<lparr>ui := p1\<lparr>abortController := True, isUploading := True, uploadProgress := no_progress\<rparr>,
            transport := XhrOpen (files p)\<rparr>)"

text \<open>
  One timer of the mock loop fires in the iteration \<open>i\<close>: the body runs, \<open>i\<close> grows by
  10, and either the next timer is awaited or the loop is left and the canned result is
  stored, in the same turn.
\<close>

definition mock_tick :: "mock_data \<Rightarrow> nat \<Rightarrow> file_with_meta list \<Rightarrow> world \<Rightarrow> world \<times> obs list" where
  "mock_tick canned i fs w =
     (let p1 = (ui w)\<lparr>uploadProgress := progress_at fs i\<rparr> in
      if i + 10 \<le> 100 then
        (w\<lparr>ui := p1, transport := MockLoop (i + 10) fs\<rparr>, [Tick (progress_at fs i)])
      else
        (w\<lparr>ui := p1\<lparr>recommendations := mock_recommendations canned,
                      explanation := or_default (mock_explanation canned) (JStr []),
                      isUploading := False\<rparr>,
           transport := Idle\<rparr>,
         [Tick (progress_at fs i), Outcome Success]))"

text \<open>
  \<open>Math.round((event.loaded / event.total) * 100)\<close> is computed on IEEE 754 doubles:
  \<open>loaded\<close> and \<open>total\<close> are 64-bit unsigned byte counts that become Numbers, the
  quotient is rounded to a double, so is the product, and \<open>Math.round\<close> takes the
  floor of the value plus one half. A finite double is kept here as a fraction
  \<open>(n, d)\<close> of integers with \<open>d\<close> a power of two, so that every step is exact.
  All values that arise from 64-bit counts lie between \<open>2 ^ -64\<close> and \<open>2 ^ 71\<close> or are 0:
  no overflow and no subnormal number occurs, and rounding is to 53 significant bits.
\<close>

text \<open>The number of binary digits of a positive integer.\<close>

function bits :: "int \<Rightarrow> nat" where
  "bits n = (if n \<le> 0 then 0 else Suc (bits (n div 2)))"
  by pat_completeness auto
termination
  by (relation "measure nat") auto

declare bits.simps [simp del]

text \<open>The binary exponent of \<open>a / b\<close> for positive \<open>a\<close> and \<open>b\<close>: the \<open>e\<close> with
  \<open>2 ^ e \<le> a / b < 2 ^ (e + 1)\<close>.\<close>

definition expo :: "int \<Rightarrow> int \<Rightarrow> int" where
  "expo a b =
     (let k = int (bits a) - int (bits b) in
      if (if 0 \<le> k then b * 2 ^ nat k \<le> a else b \<le> a * 2 ^ nat (- k)) then k else k - 1)"

text \<open>The integer nearest to \<open>a / b\<close>, a tie going to the even one.\<close>

definition rne :: "int \<Rightarrow> int \<Rightarrow> int" where
  "rne a b =
     (let q = a div b; r = a mod b in
      if 2 * r < b then q else if b < 2 * r then q + 1 else if even q then q else q + 1)"

text \<open>The fraction times \<open>2 ^ s\<close>.\<close>

fun scaled :: "int \<Rightarrow> int \<times> int \<Rightarrow> int \<times> int" where
  "scaled s (a, b) = (if 0 \<le> s then (a * 2 ^ nat s, b) else (a, b * 2 ^ nat (- s)))"

text \<open>The double nearest to the fraction \<open>a / b\<close> (\<open>0 \<le> a\<close>, \<open>0 < b\<close>): the fraction is
  scaled to a mantissa between \<open>2 ^ 52\<close> and \<open>2 ^ 53\<close>, the mantissa is rounded to an
  integer, ties to even, and scaled back.\<close>

fun to_double :: "int \<times> int \<Rightarrow> int \<times> int" where
  "to_double (a, b) =
     (if a = 0 then (0, 1)
      else case scaled (52 - expo a b) (a, b) of (n, d) \<Rightarrow> scaled (expo a b - 52) (rne n d, 1))"

text \<open>\<open>p / q\<close> and \<open>p * q\<close> on doubles: the exact result, rounded once.\<close>

definition divide_double :: "int \<times> int \<Rightarrow> int \<times> int \<Rightarrow> int \<times> int" where
  "divide_double p q = to_double (fst p * snd q, snd p * fst q)"

definition times_double :: "int \<times> int \<Rightarrow> int \<times> int \<Rightarrow> int \<times> int" where
  "times_double p q = to_double (fst p * fst q, snd p * snd q)"

text \<open>\<open>Math.round(p)\<close>: the floor of \<open>p + 1/2\<close>.\<close>

definition math_round :: "int \<times> int \<Rightarrow> int" where
  "math_round p = (2 * fst p + snd p) div (2 * snd p)"

definition round_percent :: "int \<Rightarrow> int \<Rightarrow> int" where
  "round_percent loaded tot =
     math_round (times_double (divide_double (to_double (loaded, 1)) (to_double (tot, 1))) (100, 1))"

text \<open>
  The value \<open>onprogress\<close> computes for \<open>total > 0\<close>. (With \<open>total = 0\<close> JavaScript gives
  \<open>NaN\<close> or \<open>Infinity\<close>, which the progress of this model cannot hold; a browser reports
  \<open>lengthComputable\<close> only with a total that is not 0, and nothing below is stated of
  that case.)
\<close>

definition percent :: "nat \<Rightarrow> nat \<Rightarrow> nat" where
  "percent loaded tot = (if tot = 0 then 0 else nat (round_percent (int loaded) (int tot)))"

definition onprogress :: "bool \<Rightarrow> nat \<Rightarrow> nat \<Rightarrow> file_with_meta list \<Rightarrow> page \<Rightarrow> page" where
  "onprogress lengthComputable loaded tot fs p =
     (if lengthComputable then p\<lparr>uploadProgress := progress_at fs (percent loaded tot)\<rparr> else p)"

text \<open>
  \<open>v.length > 0\<close> for a truthy \<open>v\<close>. An array and a string have their length; an
  object has the property \<open>length\<close> it was given, compared as a number; \<open>toNumber\<close>
  stands for the conversion of a string, an array or an object to a number (\<open>None\<close> is
  \<open>NaN\<close>), which the model leaves open.
\<close>

fun gt0 :: "(json \<Rightarrow> real option) \<Rightarrow> json option \<Rightarrow> bool" where
  "gt0 toNumber None = False"
| "gt0 toNumber (Some JNull) = False"
| "gt0 toNumber (Some (JBool b)) = b"
| "gt0 toNumber (Some (JNum r)) = (0 < r)"
| "gt0 toNumber (Some v) = (case toNumber v of None \<Rightarrow> False | Some r \<Rightarrow> 0 < r)"

fun length_gt0 :: "(json \<Rightarrow> real option) \<Rightarrow> json \<Rightarrow> bool" where
  "length_gt0 toNumber (JArr xs) = (xs \<noteq> [])"
| "length_gt0 toNumber (JStr s) = (s \<noteq> [])"
| "length_gt0 toNumber (JObj kvs) = gt0 toNumber (map_of kvs ''length'')"
| "length_gt0 toNumber _ = False"

text \<open>The branch of \<open>xhr.onload\<close> that stores a result.\<close>

definition has_recommendations :: "(json \<Rightarrow> real option) \<Rightarrow> xhr_response \<Rightarrow> bool" where
  "has_recommendations toNumber resp =
     (xhr_status resp = 200 \<and>
      (case parsed resp of
         None \<Rightarrow> False
       | Some data \<Rightarrow>
           (case get_prop (Some data) ''recommendations'' of
              Inl e \<Rightarrow> False
            | Inr None \<Rightarrow> False
            | Inr (Some recs) \<Rightarrow> truthy (Some recs) \<and> length_gt0 toNumber recs)))"

definition onload :: "(json \<Rightarrow> real option) \<Rightarrow> xhr_response \<Rightarrow> page \<Rightarrow> page" where
  "onload toNumber resp p =
     (let p1 = p\<lparr>isUploading := False, abortController := False\<rparr> in
      if xhr_status resp = 200 then
        (case parsed resp of
           None \<Rightarrow> p1\<lparr>error := JStr ''Unexpected server response.''\<rparr>
         | Some data \<Rightarrow>
             (case get_prop (Some data) ''recommendations'' of
                Inl e \<Rightarrow> p1\<lparr>error := JStr ''Unexpected server response.''\<rparr>
              | Inr None \<Rightarrow> p1\<lparr>error := JStr ''No recommendations found for uploaded data.''\<rparr>
              | Inr (Some recs) \<Rightarrow>
                  if truthy (Some recs) \<and> length_gt0 toNumber recs
                  then p1\<lparr>recommendations := recs,
                          explanation := or_default (opt_prop (Some data) ''explanation'') (JStr [])\<rparr>
                  else p1\<lparr>error := JStr ''No recommendations found for uploaded data.''\<rparr>))
      else
        (case parsed resp of
           None \<Rightarrow> p1\<lparr>error := (if responseText resp \<noteq> [] then JStr (responseText resp)
                                 else JStr ''Server error occurred.'')\<rparr>
         | Some errorData \<Rightarrow>
             (case get_prop (Some errorData) ''message'' of
                Inl e \<Rightarrow> p1\<lparr>error := (if responseText resp \<noteq> [] then JStr (responseText resp)
                                        else JStr ''Server error occurred.'')\<rparr>
              | Inr message \<Rightarrow>
                  p1\<lparr>error := or_default (or_js message (opt_prop (Some errorData) ''error''))
                                 (JStr ''Server error occurred.'')\<rparr>)))"

definition onerror :: "page \<Rightarrow> page" where
  "onerror p = p\<lparr>isUploading := False, abortController := False,
                 error := JStr ''Network error. Please check your connection.''\<rparr>"

definition onabort :: "page \<Rightarrow> page" where
  "onabort p = p\<lparr>isUploading := False, abortController := False, uploadProgress := no_progress\<rparr>"

text \<open>
  \<open>handleCancelUpload\<close>: with a controller in the state, \<open>abort()\<close> reaches
  \<open>xhr.abort()\<close>, and a request in flight answers with its \<open>abort\<close> event at once; a
  request that is over answers with nothing.
\<close>

definition handleCancelUpload :: "world \<Rightarrow> world \<times> obs list" where
  "handleCancelUpload w =
     (if abortController (ui w) then
        (case transport w of
           XhrOpen fs \<Rightarrow> (w\<lparr>ui := onabort (ui w), transport := Idle\<rparr>, [Outcome Aborted])
         | _ \<Rightarrow> (w, []))
      else (w, []))"

text \<open>
  The events of the page. The browser dispatches \<open>progress\<close>, \<open>load\<close> and \<open>error\<close>
  only for a request in flight, and \<open>load\<close> and \<open>error\<close> end it; a timer fires only
  for a loop that awaits it. The upload button is disabled unless \<open>canUpload\<close>.
\<close>

datatype event =
    SelectFiles "nat \<Rightarrow> string" "js_file list"
  | ConfirmLarge "nat \<Rightarrow> string"
  | CancelLarge
  | RemoveFile string
  | SetMockMode bool
  | ClickUpload
  | ClickCancel
  | TimerFired
  | XhrProgress bool nat nat
  | XhrLoad xhr_response
  | XhrError

fun deliver :: "mock_data \<Rightarrow> (json \<Rightarrow> real option) \<Rightarrow> event \<Rightarrow> world \<Rightarrow> world \<times> obs list" where
  "deliver canned toNumber (SelectFiles stamp fs) w = (w\<lparr>ui := handleFilesSelected stamp fs (ui w)\<rparr>, [])"
| "deliver canned toNumber (ConfirmLarge stamp) w = (w\<lparr>ui := handleConfirmLargeFiles stamp (ui w)\<rparr>, [])"
| "deliver canned toNumber CancelLarge w = (w\<lparr>ui := handleCancelLargeFiles (ui w)\<rparr>, [])"
| "deliver canned toNumber (RemoveFile ident) w = (w\<lparr>ui := handleRemoveFile ident (ui w)\<rparr>, [])"
| "deliver canned toNumber (SetMockMode b) w = (w\<lparr>ui := (ui w)\<lparr>mockMode := b\<rparr>\<rparr>, [])"
| "deliver canned toNumber ClickUpload w = (if canUpload (ui w) then (handleUpload w, []) else (w, []))"
| "deliver canned toNumber ClickCancel w = handleCancelUpload w"
| "deliver canned toNumber TimerFired w =
     (case transport w of MockLoop i fs \<Rightarrow> mock_tick canned i fs w | _ \<Rightarrow> (w, []))"
| "deliver canned toNumber (XhrProgress lengthComputable loaded tot) w =
     (case transport w of
        XhrOpen fs \<Rightarrow>
          (w\<lparr>ui := onprogress lengthComputable loaded tot fs (ui w)\<rparr>,
           if lengthComputable then [Tick (progress_at fs (percent loaded tot))] else [])
      | _ \<Rightarrow> (w, []))"
| "deliver canned toNumber (XhrLoad resp) w =
     (case transport w of
        XhrOpen fs \<Rightarrow>
          (w\<lparr>ui := onload toNumber resp (ui w), transport := Idle\<rparr>,
           [Outcome (if has_recommendations toNumber resp then Success else ServerError)])
      | _ \<Rightarrow> (w, []))"
| "deliver canned toNumber XhrError w =
     (case transport w of
        XhrOpen fs \<Rightarrow> (w\<lparr>ui := onerror (ui w), transport := Idle\<rparr>, [Outcome NetworkError])
      | _ \<Rightarrow> (w, []))"

fun run :: "mock_data \<Rightarrow> (json \<Rightarrow> real option) \<Rightarrow> event list \<Rightarrow> world \<Rightarrow> world \<times> obs list" where
  "run canned toNumber [] w = (w, [])"
| "run canned toNumber (e # es) w =
     (case deliver canned toNumber e w of
        (w1, obs1) \<Rightarrow> (case run canned toNumber es w1 of (w2, obs2) \<Rightarrow> (w2, obs1 @ obs2)))"

text \<open>The outcomes among the observations.\<close>

fun outcomes :: "obs list \<Rightarrow> outcome list" where
  "outcomes [] = []"
| "outcomes (Tick t # rest) = outcomes rest"
| "outcomes (Outcome x # rest) = x # outcomes rest"

text \<open>The progress values among the observations.\<close>

fun ticks :: "obs list \<Rightarrow> upload_progress list" where
  "ticks [] = []"
| "ticks (Tick t # rest) = t # ticks rest"
| "ticks (Outcome x # rest) = ticks rest"

text \<open>
  What every state the events reach satisfies: a controller in the state belongs to a
  request in flight, and a transport under way shows as \<open>isUploading\<close>.
\<close>

fun xhr_open :: "transport \<Rightarrow> bool" where
  "xhr_open (XhrOpen fs) = True"
| "xhr_open _ = False"

definition page_inv :: "world \<Rightarrow> bool" where
  "page_inv w =
     ((\<not> abortController (ui w) \<or> xhr_open (transport w)) \<and>
      (transport w = Idle \<or> isUploading (ui w)))"

definition initial_world :: world where
  "initial_world =
     \<lparr>ui = \<lparr>files = [], isUploading = False, uploadProgress = no_progress,
             recommendations = JArr [], explanation = JStr [], error = JStr [],
             mockMode = False, abortController = False, showLargeFileWarning = False,
             pendingLargeFiles = []\<rparr>,
      transport = Idle\<rparr>"

text \<open>Nothing is under way and the state holds no controller.\<close>

definition idle :: "world \<Rightarrow> bool" where
  "idle w = (transport w = Idle \<and> \<not> abortController (ui w))"

text \<open>
  What \<open>n\<close> timers of the mock loop show from the iteration \<open>i\<close> on: a progress value
  each, and the outcome with the last one.
\<close>

fun mock_trace :: "file_with_meta list \<Rightarrow> nat \<Rightarrow> nat \<Rightarrow> obs list" where
  "mock_trace fs i 0 = []"
| "mock_trace fs i (Suc n) =
     (if i + 10 \<le> 100 then Tick (progress_at fs i) # mock_trace fs (i + 10) n
      else [Tick (progress_at fs i), Outcome Success])"


definition nearest_even :: "real \<Rightarrow> int" where
  "nearest_even x =
     (if frac x < 1 / 2 then \<lfloor>x\<rfloor>
      else if 1 / 2 < frac x then \<lfloor>x\<rfloor> + 1
      else if even \<lfloor>x\<rfloor> then \<lfloor>x\<rfloor> else \<lfloor>x\<rfloor> + 1)"

text \<open>The page after one small CSV file was selected, for the examples.\<close>

definition staged_world :: world where
  "staged_world =
     initial_world\<lparr>ui := handleFilesSelected (\<lambda>k. ''1-0.5'')
        [\<lparr>file_name = ''a.csv'', file_type = ''text/csv'', file_size = 1024\<rparr>] (ui initial_world)\<rparr>"

definition demo_canned :: mock_data where
  "demo_canned =
     \<lparr>mock_recommendations = JArr [JObj [(''product_id'', JStr ''P1'')]],
      mock_explanation = Some (JStr ''demo'')\<rparr>"

text \<open>The fields of a session that an idle page keeps.\<close>

definition session_view ::
  "world \<Rightarrow> transport \<times> bool \<times> bool \<times> upload_progress \<times> json \<times> json" where
  "session_view w =
     (transport w, abortController (ui w), isUploading (ui w), uploadProgress (ui w),
      recommendations (ui w), explanation (ui w))"

section \<open>Facts about the JavaScript helpers\<close>

lemma map_of_spread: "map_of (spread a b) = map_of a ++ map_of b"
  by (simp add: spread_def AList.merge_conv')

lemma remove_at_shift:
  "map snd (filter (\<lambda>(idx, x). idx \<noteq> n + i) (enumerate n xs)) = take i xs @ drop (Suc i) xs"
proof (induction xs arbitrary: n i)
  case Nil
  then show ?case by simp
next
  case (Cons x xs)
  show ?case
  proof (cases i)
    case 0
    have "filter (\<lambda>(idx, x). idx \<noteq> n) (enumerate (Suc n) xs) = enumerate (Suc n) xs"
      by (rule filter_True) (auto simp: in_set_enumerate_eq)
    then show ?thesis using 0 by simp
  next
    case (Suc j)
    have "map snd (filter (\<lambda>(idx, x). idx \<noteq> Suc n + j) (enumerate (Suc n) xs))
            = take j xs @ drop (Suc j) xs"
      by (rule Cons.IH)
    then show ?thesis using Suc by simp
  qed
qed

lemma remove_at_eq: "remove_at i xs = take i xs @ drop (Suc i) xs"
  using remove_at_shift [of 0 i xs] by (simp add: remove_at_def)

lemma item_at_SomeD: "item_at xs i = Some x \<Longrightarrow> i < length xs \<and> xs ! i = x"
  by (auto simp: item_at_def split: if_splits)

section \<open>Mutation coordinator: failed calls and the identity guard\<close>

lemma b_update_failed:
  assumes "item_at (behaviour st) i = Some (JObj kvs)" and "truthy (map_of kvs ''_id'')"
  shows "b_handleUpdate i data (Inl err) st =
           (st\<lparr>b_calls := b_calls st @
                   [UpdateBehavior (map_of kvs ''_id'') (behaviorData data (Some (JObj kvs)))],
                b_toasts := b_toasts st @
                   [ToastError ''Failed to update behavior'' (Some (MessageOf err))],
                behaviour := (behaviour st)[i := JObj (spread kvs data)]\<rparr>, None)"
  using assms item_at_SomeD [OF assms(1)]
  by (simp add: b_handleUpdate_def set_row_def Let_def describe_def or_js_def)

lemma b_update_ok:
  assumes "item_at (behaviour st) i = Some (JObj kvs)" and "truthy (map_of kvs ''_id'')"
  shows "b_handleUpdate i data (Inr res) st =
           (st\<lparr>b_calls := b_calls st @
                   [UpdateBehavior (map_of kvs ''_id'') (behaviorData data (Some (JObj kvs)))],
                behaviour := (behaviour st)[i := JObj (spread kvs data)],
                b_toasts := b_toasts st @ [ToastSuccess ''Behavior updated successfully'']\<rparr>, None)"
  using assms item_at_SomeD [OF assms(1)]
  by (simp add: b_handleUpdate_def set_row_def Let_def or_js_def)

lemma b_update_blocked:
  assumes "item_at (behaviour st) i = Some (JObj kvs)" and "\<not> truthy (map_of kvs ''_id'')"
  shows "b_handleUpdate i data remote st =
           (st\<lparr>b_toasts := b_toasts st @
                 [ToastError ''Cannot update: Missing _id field''
                    (Some (Literal ''Please refresh the page to load the latest data with IDs''))]\<rparr>,
            None)"
  using assms by (simp add: b_handleUpdate_def Let_def)

lemma b_delete_failed:
  assumes "item_at (behaviour st) i = Some (JObj kvs)" and "truthy (map_of kvs ''_id'')"
  shows "b_handleDelete i (Inl err) st =
           (st\<lparr>b_calls := b_calls st @ [DeleteBehavior (map_of kvs ''_id'')],
                b_toasts := b_toasts st @
                   [ToastError ''Failed to delete behavior'' (Some (MessageOf err))],
                behaviour := take i (behaviour st) @ drop (Suc i) (behaviour st)\<rparr>, None)"
  using assms by (simp add: b_handleDelete_def Let_def describe_def or_js_def remove_at_eq)

lemma b_delete_ok:
  assumes "item_at (behaviour st) i = Some (JObj kvs)" and "truthy (map_of kvs ''_id'')"
  shows "b_handleDelete i (Inr res) st =
           (st\<lparr>b_calls := b_calls st @ [DeleteBehavior (map_of kvs ''_id'')],
                behaviour := take i (behaviour st) @ drop (Suc i) (behaviour st),
                b_toasts := b_toasts st @ [ToastSuccess ''Behavior deleted successfully'']\<rparr>, None)"
  using assms by (simp add: b_handleDelete_def Let_def or_js_def remove_at_eq)

lemma b_delete_blocked:
  assumes "item_at (behaviour st) i = Some (JObj kvs)" and "\<not> truthy (map_of kvs ''_id'')"
  shows "b_handleDelete i remote st =
           (st\<lparr>b_toasts := b_toasts st @
                 [ToastError ''Cannot delete: Missing _id field''
                    (Some (Literal ''Please refresh the page to load the latest data with IDs''))]\<rparr>,
            None)"
  using assms by (simp add: b_handleDelete_def Let_def)

lemma b_add_failed:
  "snd (b_handleAddFromDialog new (Inl err) st) = Some err \<and>
   behaviour (fst (b_handleAddFromDialog new (Inl err) st)) = behaviour st \<and>
   b_toasts (fst (b_handleAddFromDialog new (Inl err) st)) =
     b_toasts st @ [ToastError ''Failed to add behavior'' (Some (MessageOf err))]"
  by (simp add: b_handleAddFromDialog_def Let_def describe_def)

lemma c_update_failed:
  assumes "item_at (catalog st) j = Some (JObj cvs)"
  shows "c_handleUpdate j data (Inl err) st =
           (st\<lparr>c_calls := c_calls st @
                   [UpdateProduct (map_of cvs ''product_id'')
                      (productData data (map_of cvs ''product_id''))],
                c_toasts := c_toasts st @
                   [ToastError ''Failed to update product'' (Some (MessageOf err))],
                catalog := (catalog st)[j := JObj (spread cvs data)]\<rparr>, None)"
  using assms item_at_SomeD [OF assms]
  by (simp add: c_handleUpdate_def set_row_def Let_def describe_def)

lemma c_delete_failed:
  assumes "item_at (catalog st) j = Some (JObj cvs)"
  shows "c_handleDelete j (Inl err) st =
           (st\<lparr>c_calls := c_calls st @ [DeleteProduct (map_of cvs ''product_id'')],
                c_toasts := c_toasts st @
                   [ToastError ''Failed to delete product'' (Some (MessageOf err))],
                catalog := take j (catalog st) @ drop (Suc j) (catalog st)\<rparr>, None)"
  using assms by (simp add: c_handleDelete_def Let_def describe_def remove_at_eq)

lemma c_delete_ok:
  assumes "item_at (catalog st) j = Some (JObj cvs)"
  shows "catalog (fst (c_handleDelete j (Inr res) st)) =
           take j (catalog st) @ drop (Suc j) (catalog st)"
  using assms by (simp add: c_handleDelete_def Let_def remove_at_eq)

lemma c_add_failed:
  "snd (c_handleAddFromDialog new (Inl err) st) = Some err \<and>
   catalog (fst (c_handleAddFromDialog new (Inl err) st)) = catalog st \<and>
   c_toasts (fst (c_handleAddFromDialog new (Inl err) st)) =
     c_toasts st @ [ToastError ''Failed to add product'' (Some (MessageOf err))]"
  by (simp add: c_handleAddFromDialog_def Let_def describe_def)


text \<open>
  C1. When the remote call of an update or a delete fails, the handler still changes the
  local list: the row takes every value the caller supplied (the other properties of the
  row stay), or the row is removed, and an error toast is shown; the handler itself does
  not throw. On the behaviour page the list is the one the successful call gives. When
  the remote call of a create fails, the error is thrown again to the caller and the list
  stays as it was. This holds on the behaviour page and on the catalog page. (On the
  catalog page a successful update writes \<open>{...data, product_id: productId}\<close>, which
  keeps the row's own \<open>product_id\<close>; the failed update does not pin it.)
\<close>

theorem failed_mutation_still_applied:
  assumes "item_at (behaviour bst) i = Some (JObj kvs)" and "truthy (map_of kvs ''_id'')"
    and "item_at (catalog cst) j = Some (JObj cvs)"
  shows
    "(behaviour (fst (b_handleUpdate i data (Inl err) bst)) = (behaviour bst)[i := JObj (spread kvs data)]
      \<and> map_of (spread kvs data) = map_of kvs ++ map_of data
      \<and> behaviour (fst (b_handleUpdate i data (Inl err) bst))
          = behaviour (fst (b_handleUpdate i data (Inr res) bst))
      \<and> b_toasts (fst (b_handleUpdate i data (Inl err) bst))
          = b_toasts bst @ [ToastError ''Failed to update behavior'' (Some (MessageOf err))]
      \<and> snd (b_handleUpdate i data (Inl err) bst) = None)
     \<and> (behaviour (fst (b_handleDelete i (Inl err) bst))
          = take i (behaviour bst) @ drop (Suc i) (behaviour bst)
      \<and> behaviour (fst (b_handleDelete i (Inl err) bst))
          = behaviour (fst (b_handleDelete i (Inr res) bst))
      \<and> b_toasts (fst (b_handleDelete i (Inl err) bst))
          = b_toasts bst @ [ToastError ''Failed to delete behavior'' (Some (MessageOf err))]
      \<and> snd (b_handleDelete i (Inl err) bst) = None)
     \<and> (snd (b_handleAddFromDialog new (Inl err) bst) = Some err
      \<and> behaviour (fst (b_handleAddFromDialog new (Inl err) bst)) = behaviour bst)
     \<and> (catalog (fst (c_handleUpdate j data (Inl err) cst)) = (catalog cst)[j := JObj (spread cvs data)]
      \<and> map_of (spread cvs data) = map_of cvs ++ map_of data
      \<and> c_toasts (fst (c_handleUpdate j data (Inl err) cst))
          = c_toasts cst @ [ToastError ''Failed to update product'' (Some (MessageOf err))]
      \<and> snd (c_handleUpdate j data (Inl err) cst) = None)
     \<and> (catalog (fst (c_handleDelete j (Inl err) cst))
          = take j (catalog cst) @ drop (Suc j) (catalog cst)
      \<and> catalog (fst (c_handleDelete j (Inl err) cst))
          = catalog (fst (c_handleDelete j (Inr res) cst))
      \<and> c_toasts (fst (c_handleDelete j (Inl err) cst))
          = c_toasts cst @ [ToastError ''Failed to delete product'' (Some (MessageOf err))]
      \<and> snd (c_handleDelete j (Inl err) cst) = None)
     \<and> (snd (c_handleAddFromDialog new (Inl err) cst) = Some err
      \<and> catalog (fst (c_handleAddFromDialog new (Inl err) cst)) = catalog cst)"
proof -
  note b = assms(1,2) and c = assms(3)
  have bu: "behaviour (fst (b_handleUpdate i data (Inl err) bst)) = (behaviour bst)[i := JObj (spread kvs data)]
      \<and> map_of (spread kvs data) = map_of kvs ++ map_of data
      \<and> behaviour (fst (b_handleUpdate i data (Inl err) bst))
          = behaviour (fst (b_handleUpdate i data (Inr res) bst))
      \<and> b_toasts (fst (b_handleUpdate i data (Inl err) bst))
          = b_toasts bst @ [ToastError ''Failed to update behavior'' (Some (MessageOf err))]
      \<and> snd (b_handleUpdate i data (Inl err) bst) = None"
    by (simp add: b_update_failed [OF b] b_update_ok [OF b] map_of_spread)
  have bd: "behaviour (fst (b_handleDelete i (Inl err) bst))
          = take i (behaviour bst) @ drop (Suc i) (behaviour bst)
      \<and> behaviour (fst (b_handleDelete i (Inl err) bst))
          = behaviour (fst (b_handleDelete i (Inr res) bst))
      \<and> b_toasts (fst (b_handleDelete i (Inl err) bst))
          = b_toasts bst @ [ToastError ''Failed to delete behavior'' (Some (MessageOf err))]
      \<and> snd (b_handleDelete i (Inl err) bst) = None"
    by (simp add: b_delete_failed [OF b] b_delete_ok [OF b])
  have ba: "snd (b_handleAddFromDialog new (Inl err) bst) = Some err
      \<and> behaviour (fst (b_handleAddFromDialog new (Inl err) bst)) = behaviour bst"
    using b_add_failed [of new err bst] by simp
  have cu: "catalog (fst (c_handleUpdate j data (Inl err) cst)) = (catalog cst)[j := JObj (spread cvs data)]
      \<and> map_of (spread cvs data) = map_of cvs ++ map_of data
      \<and> c_toasts (fst (c_handleUpdate j data (Inl err) cst))
          = c_toasts cst @ [ToastError ''Failed to update product'' (Some (MessageOf err))]
      \<and> snd (c_handleUpdate j data (Inl err) cst) = None"
    by (simp add: c_update_failed [OF c] map_of_spread)
  have cd: "catalog (fst (c_handleDelete j (Inl err) cst))
          = take j (catalog cst) @ drop (Suc j) (catalog cst)
      \<and> catalog (fst (c_handleDelete j (Inl err) cst))
          = catalog (fst (c_handleDelete j (Inr res) cst))
      \<and> c_toasts (fst (c_handleDelete j (Inl err) cst))
          = c_toasts cst @ [ToastError ''Failed to delete product'' (Some (MessageOf err))]
      \<and> snd (c_handleDelete j (Inl err) cst) = None"
    by (simp add: c_delete_failed [OF c] c_delete_ok [OF c])
  have ca: "snd (c_handleAddFromDialog new (Inl err) cst) = Some err
      \<and> catalog (fst (c_handleAddFromDialog new (Inl err) cst)) = catalog cst"
    using c_add_failed [of new err cst] by simp
  from bu bd ba cu cd ca show ?thesis by blast
qed

theorem failed_mutation_still_applied_witness:
  "item_at (behaviour \<lparr>behaviour = [JObj [(''_id'', JStr ''b1''), (''action'', JStr ''view'')]],
                       b_toasts = [], b_calls = []\<rparr>) 0
     = Some (JObj [(''_id'', JStr ''b1''), (''action'', JStr ''view'')])
   \<and> truthy (map_of [(''_id'', JStr ''b1''), (''action'', JStr ''view'')] ''_id'')
   \<and> item_at (catalog \<lparr>catalog = [JObj [(''product_id'', JStr ''P1''), (''action'', JStr ''x'')]],
                        c_toasts = [], c_calls = []\<rparr>) 0
     = Some (JObj [(''product_id'', JStr ''P1''), (''action'', JStr ''x'')])
   \<and> behaviour (fst (b_handleUpdate 0 [(''action'', JStr ''purchase'')] (Inl FetchRejected)
        \<lparr>behaviour = [JObj [(''_id'', JStr ''b1''), (''action'', JStr ''view'')]],
         b_toasts = [], b_calls = []\<rparr>))
     = [JObj [(''_id'', JStr ''b1''), (''action'', JStr ''purchase'')]]
   \<and> behaviour (fst (b_handleDelete 0 (Inl FetchRejected)
        \<lparr>behaviour = [JObj [(''_id'', JStr ''b1''), (''action'', JStr ''view'')]],
         b_toasts = [], b_calls = []\<rparr>)) = []
   \<and> behaviour (fst (b_handleAddFromDialog [(''user_id'', JStr ''U1'')] (Inl FetchRejected)
        \<lparr>behaviour = [JObj [(''_id'', JStr ''b1''), (''action'', JStr ''view'')]],
         b_toasts = [], b_calls = []\<rparr>))
     = [JObj [(''_id'', JStr ''b1''), (''action'', JStr ''view'')]]
   \<and> catalog (fst (c_handleUpdate 0 [(''action'', JStr ''purchase'')] (Inl FetchRejected)
        \<lparr>catalog = [JObj [(''product_id'', JStr ''P1''), (''action'', JStr ''x'')]],
         c_toasts = [], c_calls = []\<rparr>))
     = [JObj [(''product_id'', JStr ''P1''), (''action'', JStr ''purchase'')]]
   \<and> catalog (fst (c_handleDelete 0 (Inl FetchRejected)
        \<lparr>catalog = [JObj [(''product_id'', JStr ''P1''), (''action'', JStr ''x'')]],
         c_toasts = [], c_calls = []\<rparr>)) = []"
  using failed_mutation_still_applied
    [of "\<lparr>behaviour = [JObj [(''_id'', JStr ''b1''), (''action'', JStr ''view'')]],
          b_toasts = [], b_calls = []\<rparr>" 0 "[(''_id'', JStr ''b1''), (''action'', JStr ''view'')]"
        "\<lparr>catalog = [JObj [(''product_id'', JStr ''P1''), (''action'', JStr ''x'')]],
          c_toasts = [], c_calls = []\<rparr>" 0 "[(''product_id'', JStr ''P1''), (''action'', JStr ''x'')]"
        "[(''action'', JStr ''purchase'')]" FetchRejected JNull "[(''user_id'', JStr ''U1'')]"]
  by (simp add: item_at_def spread_def)

text \<open>
  C2. A behaviour record whose \<open>_id\<close> is missing (or falsy) is neither updated nor
  deleted: the handler shows the error toast "Cannot update: Missing _id field" (or
  "Cannot delete: ...") and returns, without throwing; it records no API call and leaves
  the list as it was, whatever the remote side would have answered. A record with an
  \<open>_id\<close> is sent to the server under that \<open>_id\<close>.
\<close>

theorem missing_identity_guard:
  assumes "item_at (behaviour st) i = Some (JObj kvs)" and "\<not> truthy (map_of kvs ''_id'')"
    and "item_at (behaviour st) j = Some (JObj kvs')" and "truthy (map_of kvs' ''_id'')"
  shows
    "(b_toasts (fst (b_handleUpdate i data remote st))
        = b_toasts st @ [ToastError ''Cannot update: Missing _id field''
            (Some (Literal ''Please refresh the page to load the latest data with IDs''))]
      \<and> b_calls (fst (b_handleUpdate i data remote st)) = b_calls st
      \<and> behaviour (fst (b_handleUpdate i data remote st)) = behaviour st
      \<and> snd (b_handleUpdate i data remote st) = None)
     \<and> (b_toasts (fst (b_handleDelete i remote st))
        = b_toasts st @ [ToastError ''Cannot delete: Missing _id field''
            (Some (Literal ''Please refresh the page to load the latest data with IDs''))]
      \<and> b_calls (fst (b_handleDelete i remote st)) = b_calls st
      \<and> behaviour (fst (b_handleDelete i remote st)) = behaviour st
      \<and> snd (b_handleDelete i remote st) = None)
     \<and> b_calls (fst (b_handleUpdate j data remote st))
        = b_calls st @ [UpdateBehavior (map_of kvs' ''_id'') (behaviorData data (Some (JObj kvs')))]
     \<and> b_calls (fst (b_handleDelete j remote st))
        = b_calls st @ [DeleteBehavior (map_of kvs' ''_id'')]"
proof -
  note blocked = assms(1,2) and sent = assms(3,4)
  have u: "b_calls (fst (b_handleUpdate j data remote st))
        = b_calls st @ [UpdateBehavior (map_of kvs' ''_id'') (behaviorData data (Some (JObj kvs')))]"
    by (cases remote) (simp_all add: b_update_failed [OF sent] b_update_ok [OF sent])
  have d: "b_calls (fst (b_handleDelete j remote st))
        = b_calls st @ [DeleteBehavior (map_of kvs' ''_id'')]"
    by (cases remote) (simp_all add: b_delete_failed [OF sent] b_delete_ok [OF sent])
  show ?thesis
    by (simp add: b_update_blocked [OF blocked] b_delete_blocked [OF blocked] u d)
qed

theorem missing_identity_guard_witness:
  "item_at (behaviour \<lparr>behaviour = [JObj [(''user_id'', JStr ''U1'')],
                                    JObj [(''_id'', JStr ''b2''), (''user_id'', JStr ''U2'')]],
                       b_toasts = [], b_calls = []\<rparr>) 0 = Some (JObj [(''user_id'', JStr ''U1'')])
   \<and> \<not> truthy (map_of [(''user_id'', JStr ''U1'')] ''_id'')
   \<and> item_at (behaviour \<lparr>behaviour = [JObj [(''user_id'', JStr ''U1'')],
                                    JObj [(''_id'', JStr ''b2''), (''user_id'', JStr ''U2'')]],
                       b_toasts = [], b_calls = []\<rparr>) 1
       = Some (JObj [(''_id'', JStr ''b2''), (''user_id'', JStr ''U2'')])
   \<and> truthy (map_of [(''_id'', JStr ''b2''), (''user_id'', JStr ''U2'')] ''_id'')
   \<and> b_calls (fst (b_handleUpdate 0 [(''action'', JStr ''view'')] (Inr JNull)
        \<lparr>behaviour = [JObj [(''user_id'', JStr ''U1'')],
                      JObj [(''_id'', JStr ''b2''), (''user_id'', JStr ''U2'')]],
         b_toasts = [], b_calls = []\<rparr>)) = []
   \<and> b_calls (fst (b_handleDelete 0 (Inr JNull)
        \<lparr>behaviour = [JObj [(''user_id'', JStr ''U1'')],
                      JObj [(''_id'', JStr ''b2''), (''user_id'', JStr ''U2'')]],
         b_toasts = [], b_calls = []\<rparr>)) = []
   \<and> b_calls (fst (b_handleDelete 1 (Inr JNull)
        \<lparr>behaviour = [JObj [(''user_id'', JStr ''U1'')],
                      JObj [(''_id'', JStr ''b2''), (''user_id'', JStr ''U2'')]],
         b_toasts = [], b_calls = []\<rparr>)) = [DeleteBehavior (Some (JStr ''b2''))]"
  using missing_identity_guard
    [of "\<lparr>behaviour = [JObj [(''user_id'', JStr ''U1'')],
                       JObj [(''_id'', JStr ''b2''), (''user_id'', JStr ''U2'')]],
          b_toasts = [], b_calls = []\<rparr>" 0 "[(''user_id'', JStr ''U1'')]"
        1 "[(''_id'', JStr ''b2''), (''user_id'', JStr ''U2'')]"
        "[(''action'', JStr ''view'')]" "Inr JNull"]
  by (simp add: item_at_def)


section \<open>File stager\<close>


lemma select_loop_eq:
  "select_loop stamp k sel (v, l, h) =
     (v @ map (\<lambda>(n, f). with_meta stamp n f)
            (filter (\<lambda>(n, f). isCSV f \<and> file_size f \<le> MAX_FILE_SIZE) (enumerate k sel)),
      l @ filter (\<lambda>f. isCSV f \<and> file_size f > MAX_FILE_SIZE) sel,
      h \<or> (\<exists>f\<in>set sel. \<not> isCSV f))"
  by (induction sel arbitrary: k v l h) (auto simp: not_le)

lemma handleFilesSelected_eq:
  "handleFilesSelected stamp sel p =
     (let large = filter (\<lambda>f. isCSV f \<and> file_size f > MAX_FILE_SIZE) sel in
      p\<lparr>error := (if \<exists>f\<in>set sel. \<not> isCSV f then JStr ''Only CSV files are allowed'' else JStr []),
        pendingLargeFiles := (if large \<noteq> [] then large else pendingLargeFiles p),
        showLargeFileWarning := (large \<noteq> [] \<or> showLargeFileWarning p),
        files := files p @ map (\<lambda>(n, f). with_meta stamp n f)
            (filter (\<lambda>(n, f). isCSV f \<and> file_size f \<le> MAX_FILE_SIZE) (enumerate 0 sel))\<rparr>)"
  by (simp add: handleFilesSelected_def select_loop_eq Let_def)

lemma staged_small:
  assumes "f \<in> set sel" "isCSV f" "file_size f \<le> MAX_FILE_SIZE"
  shows "\<exists>m\<in>set (files (handleFilesSelected stamp sel p)). fm_file m = f \<and> fm_name m = file_name f \<and> fm_size m = file_size f"
proof -
  from assms(1) obtain n where n: "n < length sel" "sel ! n = f"
    by (auto simp: in_set_conv_nth)
  then have "(n, f) \<in> set (enumerate 0 sel)"
    by (auto simp: in_set_enumerate_eq)
  with assms(2,3) have "with_meta stamp n f \<in> set (files (handleFilesSelected stamp sel p))"
    by (force simp: handleFilesSelected_eq Let_def)
  then show ?thesis by (auto simp: with_meta_def intro!: bexI)
qed

lemma staged_only:
  assumes "m \<in> set (files (handleFilesSelected stamp sel p))"
  shows "m \<in> set (files p) \<or>
         (fm_file m \<in> set sel \<and> isCSV (fm_file m) \<and> file_size (fm_file m) \<le> MAX_FILE_SIZE)"
  using assms by (auto simp: handleFilesSelected_eq Let_def with_meta_def in_set_enumerate_eq)

lemma confirm_files:
  "map (fm_file \<circ> (\<lambda>(k, f). with_meta stamp k f)) (enumerate n fs) = fs"
  by (induction fs arbitrary: n) (auto simp: with_meta_def)

lemma isCSV_upper: "isCSV \<lparr>file_name = ''Report.CSV'', file_type = [], file_size = 10\<rparr>"
  by (simp add: isCSV_def endsWith_def toLowerCase_def lower_char_def)

text \<open>
  C7. \<open>handleFilesSelected\<close> stages exactly the files of the selection that are CSV
  (declared type \<open>text/csv\<close>, or a name that ends in \<open>.csv\<close> after \<open>toLowerCase\<close>)
  and are at most 5 MB: they are appended to \<open>files\<close> at once, every new entry of
  \<open>files\<close> is such a file, and a selection without a larger CSV file leaves the pending
  set and the warning dialog as they were. A file of another type sets the error "Only
  CSV files are allowed", and the staged entries do not depend on it.
\<close>

theorem stage_accepts_small_csv:
  "files (handleFilesSelected stamp sel p) =
     files p @ map (\<lambda>(n, f). with_meta stamp n f)
       (filter (\<lambda>(n, f). isCSV f \<and> file_size f \<le> MAX_FILE_SIZE) (enumerate 0 sel))
   \<and> (\<forall>m\<in>set (files (handleFilesSelected stamp sel p)).
         m \<in> set (files p) \<or>
         (fm_file m \<in> set sel \<and>
          (file_type (fm_file m) = ''text/csv'' \<or> endsWith (toLowerCase (file_name (fm_file m))) ''.csv'')))
   \<and> (\<forall>f\<in>set sel.
         (file_type f = ''text/csv'' \<or> endsWith (toLowerCase (file_name f)) ''.csv'') \<and>
         file_size f \<le> 5 * 1024 * 1024 \<longrightarrow>
         (\<exists>m\<in>set (files (handleFilesSelected stamp sel p)).
            fm_file m = f \<and> fm_name m = file_name f \<and> fm_size m = file_size f))
   \<and> ((\<forall>f\<in>set sel. isCSV f \<longrightarrow> file_size f \<le> MAX_FILE_SIZE) \<longrightarrow>
         pendingLargeFiles (handleFilesSelected stamp sel p) = pendingLargeFiles p \<and>
         showLargeFileWarning (handleFilesSelected stamp sel p) = showLargeFileWarning p)
   \<and> (\<forall>f\<in>set (pendingLargeFiles (handleFilesSelected stamp sel p)).
         f \<in> set (pendingLargeFiles p) \<or> (f \<in> set sel \<and> isCSV f))
   \<and> error (handleFilesSelected stamp sel p) =
        (if \<exists>f\<in>set sel. \<not> isCSV f then JStr ''Only CSV files are allowed'' else JStr [])"
proof -
  have small: "filter (\<lambda>f. isCSV f \<and> file_size f > MAX_FILE_SIZE) sel = []"
    if "\<forall>f\<in>set sel. isCSV f \<longrightarrow> file_size f \<le> MAX_FILE_SIZE"
    using that by (auto simp: filter_empty_conv)
  have 1: "files (handleFilesSelected stamp sel p) =
     files p @ map (\<lambda>(n, f). with_meta stamp n f)
       (filter (\<lambda>(n, f). isCSV f \<and> file_size f \<le> MAX_FILE_SIZE) (enumerate 0 sel))"
    by (simp add: handleFilesSelected_eq Let_def)
  have 2: "\<forall>m\<in>set (files (handleFilesSelected stamp sel p)).
         m \<in> set (files p) \<or>
         (fm_file m \<in> set sel \<and>
          (file_type (fm_file m) = ''text/csv'' \<or> endsWith (toLowerCase (file_name (fm_file m))) ''.csv''))"
    using staged_only [of _ stamp sel p] by (auto simp: isCSV_def)
  have 3: "\<forall>f\<in>set sel.
         (file_type f = ''text/csv'' \<or> endsWith (toLowerCase (file_name f)) ''.csv'') \<and>
         file_size f \<le> 5 * 1024 * 1024 \<longrightarrow>
         (\<exists>m\<in>set (files (handleFilesSelected stamp sel p)).
            fm_file m = f \<and> fm_name m = file_name f \<and> fm_size m = file_size f)"
    using staged_small [of _ sel stamp p] by (simp add: isCSV_def MAX_FILE_SIZE_def)
  have 4: "(\<forall>f\<in>set sel. isCSV f \<longrightarrow> file_size f \<le> MAX_FILE_SIZE) \<longrightarrow>
         pendingLargeFiles (handleFilesSelected stamp sel p) = pendingLargeFiles p \<and>
         showLargeFileWarning (handleFilesSelected stamp sel p) = showLargeFileWarning p"
    using small by (simp add: handleFilesSelected_eq Let_def)
  have 5: "error (handleFilesSelected stamp sel p) =
        (if \<exists>f\<in>set sel. \<not> isCSV f then JStr ''Only CSV files are allowed'' else JStr [])"
    by (simp add: handleFilesSelected_eq Let_def)
  have 6: "\<forall>f\<in>set (pendingLargeFiles (handleFilesSelected stamp sel p)).
         f \<in> set (pendingLargeFiles p) \<or> (f \<in> set sel \<and> isCSV f)"
    by (auto simp: handleFilesSelected_eq Let_def split: if_splits)
  from 1 2 3 4 5 6 show ?thesis by blast
qed


theorem stage_accepts_small_csv_witness:
  "files (handleFilesSelected (\<lambda>k. ''t'')
       [\<lparr>file_name = ''Report.CSV'', file_type = [], file_size = 10\<rparr>,
        \<lparr>file_name = ''notes.txt'', file_type = ''text/plain'', file_size = 5\<rparr>,
        \<lparr>file_name = ''data'', file_type = ''text/csv'', file_size = 5242880\<rparr>]
       (ui initial_world))
     = [\<lparr>fm_file = \<lparr>file_name = ''Report.CSV'', file_type = [], file_size = 10\<rparr>,
         fm_id = ''Report.CSV-t'', fm_name = ''Report.CSV'', fm_size = 10\<rparr>,
        \<lparr>fm_file = \<lparr>file_name = ''data'', file_type = ''text/csv'', file_size = 5242880\<rparr>,
         fm_id = ''data-t'', fm_name = ''data'', fm_size = 5242880\<rparr>]
   \<and> error (handleFilesSelected (\<lambda>k. ''t'')
       [\<lparr>file_name = ''Report.CSV'', file_type = [], file_size = 10\<rparr>,
        \<lparr>file_name = ''notes.txt'', file_type = ''text/plain'', file_size = 5\<rparr>,
        \<lparr>file_name = ''data'', file_type = ''text/csv'', file_size = 5242880\<rparr>]
       (ui initial_world)) = JStr ''Only CSV files are allowed''
   \<and> pendingLargeFiles (handleFilesSelected (\<lambda>k. ''t'')
       [\<lparr>file_name = ''Report.CSV'', file_type = [], file_size = 10\<rparr>,
        \<lparr>file_name = ''notes.txt'', file_type = ''text/plain'', file_size = 5\<rparr>,
        \<lparr>file_name = ''data'', file_type = ''text/csv'', file_size = 5242880\<rparr>]
       (ui initial_world)) = []
   \<and> \<not> showLargeFileWarning (handleFilesSelected (\<lambda>k. ''t'')
       [\<lparr>file_name = ''Report.CSV'', file_type = [], file_size = 10\<rparr>,
        \<lparr>file_name = ''notes.txt'', file_type = ''text/plain'', file_size = 5\<rparr>,
        \<lparr>file_name = ''data'', file_type = ''text/csv'', file_size = 5242880\<rparr>]
       (ui initial_world))"
  using stage_accepts_small_csv
    [of "\<lambda>k. ''t''"
        "[\<lparr>file_name = ''Report.CSV'', file_type = [], file_size = 10\<rparr>,
          \<lparr>file_name = ''notes.txt'', file_type = ''text/plain'', file_size = 5\<rparr>,
          \<lparr>file_name = ''data'', file_type = ''text/csv'', file_size = 5242880\<rparr>]"
        "ui initial_world"]
  by (simp add: isCSV_def endsWith_def toLowerCase_def lower_char_def MAX_FILE_SIZE_def
        with_meta_def initial_world_def)

text \<open>
  C8. A CSV file above 5 MB goes to \<open>pendingLargeFiles\<close> and opens the warning; no
  entry that \<open>handleFilesSelected\<close> adds to \<open>files\<close> is above 5 MB.
  \<open>handleConfirmLargeFiles\<close> appends one entry for every pending file, in order, and
  empties the pending set; \<open>handleCancelLargeFiles\<close> empties the pending set and
  leaves \<open>files\<close> as it was.
\<close>

theorem large_files_need_confirmation:
  "(\<forall>f\<in>set sel. isCSV f \<and> file_size f > 5 * 1024 * 1024 \<longrightarrow>
       f \<in> set (pendingLargeFiles (handleFilesSelected stamp sel p)) \<and>
       showLargeFileWarning (handleFilesSelected stamp sel p))
   \<and> (\<forall>m\<in>set (files (handleFilesSelected stamp sel p)).
         m \<in> set (files p) \<or> file_size (fm_file m) \<le> 5 * 1024 * 1024)
   \<and> files (handleConfirmLargeFiles stamp' q) =
        files q @ map (\<lambda>(k, f). with_meta stamp' k f) (enumerate 0 (pendingLargeFiles q))
   \<and> map fm_file (drop (length (files q)) (files (handleConfirmLargeFiles stamp' q)))
        = pendingLargeFiles q
   \<and> pendingLargeFiles (handleConfirmLargeFiles stamp' q) = []
   \<and> files (handleCancelLargeFiles q) = files q
   \<and> pendingLargeFiles (handleCancelLargeFiles q) = []"
proof -
  have 1: "\<forall>f\<in>set sel. isCSV f \<and> file_size f > 5 * 1024 * 1024 \<longrightarrow>
       f \<in> set (pendingLargeFiles (handleFilesSelected stamp sel p)) \<and>
       showLargeFileWarning (handleFilesSelected stamp sel p)"
    by (auto simp: handleFilesSelected_eq Let_def MAX_FILE_SIZE_def filter_empty_conv)
  have 2: "\<forall>m\<in>set (files (handleFilesSelected stamp sel p)).
         m \<in> set (files p) \<or> file_size (fm_file m) \<le> 5 * 1024 * 1024"
    using staged_only [of _ stamp sel p] by (auto simp: MAX_FILE_SIZE_def)
  have 3: "files (handleConfirmLargeFiles stamp' q) =
        files q @ map (\<lambda>(k, f). with_meta stamp' k f) (enumerate 0 (pendingLargeFiles q))"
    by (simp add: handleConfirmLargeFiles_def Let_def)
  have 4: "map fm_file (drop (length (files q)) (files (handleConfirmLargeFiles stamp' q)))
        = pendingLargeFiles q"
    unfolding 3 by (simp add: confirm_files)
  have 5: "pendingLargeFiles (handleConfirmLargeFiles stamp' q) = []"
    by (simp add: handleConfirmLargeFiles_def Let_def)
  have 6: "files (handleCancelLargeFiles q) = files q \<and> pendingLargeFiles (handleCancelLargeFiles q) = []"
    by (simp add: handleCancelLargeFiles_def)
  from 1 2 3 4 5 6 show ?thesis by blast
qed

theorem large_files_need_confirmation_witness:
  "pendingLargeFiles (handleFilesSelected (\<lambda>k. ''t'')
       [\<lparr>file_name = ''b.csv'', file_type = ''text/csv'', file_size = 6291456\<rparr>] (ui initial_world))
     = [\<lparr>file_name = ''b.csv'', file_type = ''text/csv'', file_size = 6291456\<rparr>]
   \<and> files (handleFilesSelected (\<lambda>k. ''t'')
       [\<lparr>file_name = ''b.csv'', file_type = ''text/csv'', file_size = 6291456\<rparr>] (ui initial_world)) = []
   \<and> files (handleConfirmLargeFiles (\<lambda>k. ''u'') (handleFilesSelected (\<lambda>k. ''t'')
       [\<lparr>file_name = ''b.csv'', file_type = ''text/csv'', file_size = 6291456\<rparr>] (ui initial_world)))
     = [\<lparr>fm_file = \<lparr>file_name = ''b.csv'', file_type = ''text/csv'', file_size = 6291456\<rparr>,
         fm_id = ''b.csv-u'', fm_name = ''b.csv'', fm_size = 6291456\<rparr>]
   \<and> files (handleCancelLargeFiles (handleFilesSelected (\<lambda>k. ''t'')
       [\<lparr>file_name = ''b.csv'', file_type = ''text/csv'', file_size = 6291456\<rparr>] (ui initial_world))) = []
   \<and> pendingLargeFiles (handleCancelLargeFiles (handleFilesSelected (\<lambda>k. ''t'')
       [\<lparr>file_name = ''b.csv'', file_type = ''text/csv'', file_size = 6291456\<rparr>] (ui initial_world))) = []"
  using large_files_need_confirmation
    [of "[\<lparr>file_name = ''b.csv'', file_type = ''text/csv'', file_size = 6291456\<rparr>]"
        "\<lambda>k. ''t''" "ui initial_world" "\<lambda>k. ''u''"
        "handleFilesSelected (\<lambda>k. ''t'')
          [\<lparr>file_name = ''b.csv'', file_type = ''text/csv'', file_size = 6291456\<rparr>] (ui initial_world)"]
  by (simp add: handleFilesSelected_def handleConfirmLargeFiles_def handleCancelLargeFiles_def
        isCSV_def MAX_FILE_SIZE_def with_meta_def initial_world_def)


section \<open>Response normalisation\<close>

lemma opt_prop_arr_not_array: "opt_prop (Some raw) k = Some v \<Longrightarrow> \<not> isArray (Some raw)"
  by (cases raw) auto

lemma isArray_elements: "isArray v \<Longrightarrow> v = Some (JArr (elements v))"
  by (cases v rule: isArray.cases) auto


text \<open>
  C6, as the claim states it, fails. The catalog fetch has no final \<open>else\<close>: a
  response of no recognised shape, here \<open>{}\<close>, leaves the catalog list as it was
  instead of emptying it. The stored-recommendations fetch does not look at \<open>data\<close>:
  \<open>{data: xs}\<close> leaves its list as it was instead of yielding \<open>xs\<close>.
\<close>

theorem normalizer_counterexample:
  "catalog (fetchProducts False (Inr (JObj []))
      \<lparr>catalog = [JObj [(''product_id'', JStr ''P1'')]], c_toasts = [], c_calls = []\<rparr>)
     = [JObj [(''product_id'', JStr ''P1'')]]
   \<and> catalog (fetchProducts False (Inr (JObj []))
      \<lparr>catalog = [JObj [(''product_id'', JStr ''P1'')]], c_toasts = [], c_calls = []\<rparr>) \<noteq> []
   \<and> d_recommendations (fetchStoredRecommendations
        (Inr (JObj [(''data'', JArr [JObj [(''product_id'', JStr ''P2'')]])]))
        \<lparr>d_recommendations = [JObj [(''product_id'', JStr ''P1'')]], d_explanation = JStr []\<rparr>)
     = [JObj [(''product_id'', JStr ''P1'')]]
   \<and> d_recommendations (fetchStoredRecommendations
        (Inr (JObj [(''data'', JArr [JObj [(''product_id'', JStr ''P2'')]])]))
        \<lparr>d_recommendations = [JObj [(''product_id'', JStr ''P1'')]], d_explanation = JStr []\<rparr>)
     \<noteq> [JObj [(''product_id'', JStr ''P2'')]]"
  by (simp add: fetchProducts_def fetchStoredRecommendations_def)


text \<open>
  C6, amended. The behaviour fetch yields \<open>xs\<close> for the bare sequence \<open>xs\<close>, for
  \<open>{behaviors: xs}\<close> and for \<open>{data: xs}\<close>, and the empty list for a response of no
  recognised shape. The catalog fetch yields \<open>xs\<close> for the bare sequence, for
  \<open>{products: xs}\<close> and for \<open>{data: xs}\<close>, and leaves the catalog list as it was
  for a response of no recognised shape. The stored-recommendations fetch yields \<open>xs\<close>
  for the bare sequence and for \<open>{recommendations: xs}\<close>, and leaves its list as it was
  for every other response, \<open>{data: xs}\<close> included.
\<close>

theorem normalizer_shapes:
  "(behaviorsList (JArr xs) = xs
    \<and> (opt_prop (Some raw1) ''behaviors'' = Some (JArr xs) \<longrightarrow> behaviorsList raw1 = xs)
    \<and> behaviorsList (JObj [(''data'', JArr xs)]) = xs
    \<and> (\<not> isArray (Some raw2) \<and> \<not> isArray (opt_prop (Some raw2) ''behaviors'')
          \<and> \<not> isArray (opt_prop (Some raw2) ''data'') \<longrightarrow> behaviorsList raw2 = []))
   \<and> (catalog (fetchProducts t (Inr (JArr xs)) cst) = xs
    \<and> (opt_prop (Some raw3) ''products'' = Some (JArr xs) \<longrightarrow>
          catalog (fetchProducts t (Inr raw3) cst) = xs)
    \<and> catalog (fetchProducts t (Inr (JObj [(''data'', JArr xs)])) cst) = xs
    \<and> (\<not> isArray (Some raw4) \<and> \<not> isArray (opt_prop (Some raw4) ''products'')
          \<and> \<not> isArray (opt_prop (Some raw4) ''data'') \<longrightarrow>
          catalog (fetchProducts t (Inr raw4) cst) = catalog cst))
   \<and> (d_recommendations (fetchStoredRecommendations (Inr (JArr xs)) dst) = xs
    \<and> (opt_prop (Some raw5) ''recommendations'' = Some (JArr xs) \<longrightarrow>
          d_recommendations (fetchStoredRecommendations (Inr raw5) dst) = xs)
    \<and> (\<not> isArray (Some raw6) \<and> \<not> isArray (opt_prop (Some raw6) ''recommendations'') \<longrightarrow>
          d_recommendations (fetchStoredRecommendations (Inr raw6) dst) = d_recommendations dst))"
proof -
  have b: "behaviorsList (JArr xs) = xs
    \<and> (opt_prop (Some raw1) ''behaviors'' = Some (JArr xs) \<longrightarrow> behaviorsList raw1 = xs)
    \<and> behaviorsList (JObj [(''data'', JArr xs)]) = xs
    \<and> (\<not> isArray (Some raw2) \<and> \<not> isArray (opt_prop (Some raw2) ''behaviors'')
          \<and> \<not> isArray (opt_prop (Some raw2) ''data'') \<longrightarrow> behaviorsList raw2 = [])"
    by (auto simp: behaviorsList_def dest: opt_prop_arr_not_array)
  have c: "catalog (fetchProducts t (Inr (JArr xs)) cst) = xs
    \<and> (opt_prop (Some raw3) ''products'' = Some (JArr xs) \<longrightarrow>
          catalog (fetchProducts t (Inr raw3) cst) = xs)
    \<and> catalog (fetchProducts t (Inr (JObj [(''data'', JArr xs)])) cst) = xs
    \<and> (\<not> isArray (Some raw4) \<and> \<not> isArray (opt_prop (Some raw4) ''products'')
          \<and> \<not> isArray (opt_prop (Some raw4) ''data'') \<longrightarrow>
          catalog (fetchProducts t (Inr raw4) cst) = catalog cst)"
    by (auto simp: fetchProducts_def dest: opt_prop_arr_not_array)
  have d: "d_recommendations (fetchStoredRecommendations (Inr (JArr xs)) dst) = xs
    \<and> (opt_prop (Some raw5) ''recommendations'' = Some (JArr xs) \<longrightarrow>
          d_recommendations (fetchStoredRecommendations (Inr raw5) dst) = xs)
    \<and> (\<not> isArray (Some raw6) \<and> \<not> isArray (opt_prop (Some raw6) ''recommendations'') \<longrightarrow>
          d_recommendations (fetchStoredRecommendations (Inr raw6) dst) = d_recommendations dst)"
    by (auto simp: fetchStoredRecommendations_def Let_def split: option.splits)
  from b c d show ?thesis by blast
qed

theorem normalizer_shapes_witness:
  "behaviorsList (JObj [(''behaviors'', JArr [JNum 1])]) = [JNum 1]
   \<and> behaviorsList (JObj [(''data'', JArr [JNum 1])]) = [JNum 1]
   \<and> behaviorsList (JArr [JNum 1]) = [JNum 1]
   \<and> behaviorsList (JObj [(''items'', JArr [JNum 1])]) = []
   \<and> catalog (fetchProducts False (Inr (JObj [(''products'', JArr [JNum 1])]))
        \<lparr>catalog = [JNum 7], c_toasts = [], c_calls = []\<rparr>) = [JNum 1]
   \<and> catalog (fetchProducts False (Inr (JObj [(''items'', JArr [JNum 1])]))
        \<lparr>catalog = [JNum 7], c_toasts = [], c_calls = []\<rparr>) = [JNum 7]
   \<and> d_recommendations (fetchStoredRecommendations (Inr (JObj [(''recommendations'', JArr [JNum 1])]))
        \<lparr>d_recommendations = [JNum 7], d_explanation = JStr []\<rparr>) = [JNum 1]
   \<and> d_recommendations (fetchStoredRecommendations (Inr (JObj [(''data'', JArr [JNum 1])]))
        \<lparr>d_recommendations = [JNum 7], d_explanation = JStr []\<rparr>) = [JNum 7]"
  using normalizer_shapes
    [of "[JNum 1]" "JObj [(''behaviors'', JArr [JNum 1])]" "JObj [(''items'', JArr [JNum 1])]"
        False "\<lparr>catalog = [JNum 7], c_toasts = [], c_calls = []\<rparr>"
        "JObj [(''products'', JArr [JNum 1])]" "JObj [(''items'', JArr [JNum 1])]"
        "\<lparr>d_recommendations = [JNum 7], d_explanation = JStr []\<rparr>"
        "JObj [(''recommendations'', JArr [JNum 1])]" "JObj [(''data'', JArr [JNum 1])]"]
  by (simp add: behaviorsList_def)

section \<open>Completed HTTP exchanges\<close>

lemma or_default_chain2:
  "or_default (or_js a b) d = first_truthy [a, b] d"
  by (cases a; cases b) (auto simp: or_default_def or_js_def)

lemma or_default_chain3:
  "or_default (or_js (or_js a b) c) d = first_truthy [a, b, c] d"
  by (cases a; cases b; cases c) (auto simp: or_default_def or_js_def)

lemma error_of_eq:
  assumes "body r \<noteq> Some JNull"
  shows "error_of prefix r =
      Error (first_truthy
        [opt_prop (index0 (opt_prop (Some (error_body r)) ''detail'')) ''msg'',
         opt_prop (Some (error_body r)) ''detail'',
         opt_prop (Some (error_body r)) ''message'']
        (JStr (prefix @ '': '' @ show_nat (status r) @ '' '' @ statusText r)))"
proof (cases "body r")
  case None
  then show ?thesis by (simp add: error_of_def error_body_def or_default_chain3)
next
  case (Some j)
  with assms have "j \<noteq> JNull" by simp
  then show ?thesis using Some
    by (cases j) (simp_all add: error_of_def error_body_def or_default_chain3)
qed

lemma error_of_null: "body r = Some JNull \<Longrightarrow> error_of prefix r = TypeError"
  by (simp add: error_of_def error_body_def)

lemma onload_error_text:
  assumes "xhr_status resp \<noteq> 200"
  shows "error (onload tn resp p) =
     (case parsed resp of
        Some (JObj kvs) \<Rightarrow> first_truthy [map_of kvs ''message'', map_of kvs ''error'']
                              (JStr ''Server error occurred.'')
      | Some JNull \<Rightarrow> (if responseText resp \<noteq> [] then JStr (responseText resp)
                        else JStr ''Server error occurred.'')
      | None \<Rightarrow> (if responseText resp \<noteq> [] then JStr (responseText resp)
                        else JStr ''Server error occurred.'')
      | Some other \<Rightarrow> JStr ''Server error occurred.'')"
  using assms
  by (simp add: onload_def Let_def or_default_chain2 split: option.splits json.splits)

lemma onload_not_200_keeps:
  assumes "xhr_status resp \<noteq> 200"
  shows "recommendations (onload tn resp p) = recommendations p"
  using assms by (simp add: onload_def Let_def split: option.splits sum.splits)

lemma get_prop_InrD: "get_prop v k = Inr x \<Longrightarrow> x = opt_prop v k"
  by (cases "(v, k)" rule: get_prop.cases) auto

lemma onload_success:
  assumes "has_recommendations tn resp"
  shows "xhr_status resp = 200 \<and> error (onload tn resp p) = error p
         \<and> Some (recommendations (onload tn resp p))
             = opt_prop (parsed resp) ''recommendations''"
  using assms
  by (auto simp: has_recommendations_def onload_def Let_def
           dest: get_prop_InrD split: option.splits sum.splits)


text \<open>
  C9, as the claim states it, fails. The upload request of the recommendations page
  reads \<open>message\<close> and \<open>error\<close>, never \<open>detail\<close>: a 500 response with the body
  \<open>{"detail":"boom"}\<close> surfaces "Server error occurred.". It takes only the status
  200 for a success: a 201 response with recommendations ends in the error branch. In the
  API client the fallback text carries the prefix "API Error: ", and a field that is
  there but falsy (\<open>detail = ""\<close>) is passed over.
\<close>

theorem error_text_counterexample:
  \<open>error (onload (\<lambda>v. None)
       \<lparr>xhr_status = 500, responseText = ''{"detail":"boom"}'',
        parsed = Some (JObj [(''detail'', JStr ''boom'')])\<rparr> (ui initial_world))
     = JStr ''Server error occurred.''
   \<and> error (onload (\<lambda>v. None)
       \<lparr>xhr_status = 201, responseText = ''{"recommendations":[1]}'',
        parsed = Some (JObj [(''recommendations'', JArr [JNum 1])])\<rparr> (ui initial_world))
     = JStr ''Server error occurred.''
   \<and> apiFetch (Some \<lparr>status = 404, statusText = ''Not Found'', body = None\<rparr>)
     = Inl (Error (JStr ''API Error: 404 Not Found''))
   \<and> apiFetch (Some \<lparr>status = 400, statusText = ''Bad Request'',
                      body = Some (JObj [(''detail'', JStr []), (''message'', JStr ''m'')])\<rparr>)
     = Inl (Error (JStr ''m''))\<close>
  by (simp add: onload_def apiFetch_def ok_def error_of_def error_body_def or_default_def or_js_def
        initial_world_def show_nat.simps)



text \<open>
  C9, amended. The API client returns the parsed body of a response with a status from
  200 to 299 (a body that is not JSON throws a SyntaxError); for every other status it
  throws an Error made from the first truthy value among \<open>detail[0].msg\<close>,
  \<open>detail\<close> and \<open>message\<close> of the parsed body (of \<open>{}\<close> when the body is not
  JSON), else from "API Error: <status> <statusText>"; the body \<open>null\<close> throws a
  TypeError. The upload request of the recommendations page stores a result only for the
  status 200; for every other status the recommendations stay and the error text is the
  first truthy value among \<open>message\<close> and \<open>error\<close> of a parsed object, else "Server
  error occurred.", and the raw response text (when it is not empty) for a body that is
  not JSON or is \<open>null\<close>.
\<close>

theorem completed_exchange_outcome:
  "(ok r1 \<longrightarrow> apiFetch (Some r1) = (case body r1 of None \<Rightarrow> Inl SyntaxError | Some j \<Rightarrow> Inr j))
   \<and> (\<not> ok r2 \<and> body r2 \<noteq> Some JNull \<longrightarrow>
        apiFetch (Some r2) =
          Inl (Error (first_truthy
            [opt_prop (index0 (opt_prop (Some (error_body r2)) ''detail'')) ''msg'',
             opt_prop (Some (error_body r2)) ''detail'',
             opt_prop (Some (error_body r2)) ''message'']
            (JStr (''API Error: '' @ show_nat (status r2) @ '' '' @ statusText r2)))))
   \<and> (\<not> ok r3 \<and> body r3 = Some JNull \<longrightarrow> apiFetch (Some r3) = Inl TypeError)
   \<and> (xhr_status resp1 \<noteq> 200 \<longrightarrow>
        \<not> has_recommendations tn resp1
        \<and> recommendations (onload tn resp1 p) = recommendations p
        \<and> error (onload tn resp1 p) =
            (case parsed resp1 of
               Some (JObj kvs) \<Rightarrow> first_truthy [map_of kvs ''message'', map_of kvs ''error'']
                                     (JStr ''Server error occurred.'')
             | Some JNull \<Rightarrow> (if responseText resp1 \<noteq> [] then JStr (responseText resp1)
                               else JStr ''Server error occurred.'')
             | None \<Rightarrow> (if responseText resp1 \<noteq> [] then JStr (responseText resp1)
                               else JStr ''Server error occurred.'')
             | Some other \<Rightarrow> JStr ''Server error occurred.''))
   \<and> (has_recommendations tn resp2 \<longrightarrow>
        xhr_status resp2 = 200 \<and> error (onload tn resp2 p) = error p
        \<and> Some (recommendations (onload tn resp2 p)) = opt_prop (parsed resp2) ''recommendations'')"
proof -
  have 1: "ok r1 \<longrightarrow> apiFetch (Some r1) = (case body r1 of None \<Rightarrow> Inl SyntaxError | Some j \<Rightarrow> Inr j)"
    by (simp add: apiFetch_def)
  have 2: "\<not> ok r2 \<and> body r2 \<noteq> Some JNull \<longrightarrow>
        apiFetch (Some r2) =
          Inl (Error (first_truthy
            [opt_prop (index0 (opt_prop (Some (error_body r2)) ''detail'')) ''msg'',
             opt_prop (Some (error_body r2)) ''detail'',
             opt_prop (Some (error_body r2)) ''message'']
            (JStr (''API Error: '' @ show_nat (status r2) @ '' '' @ statusText r2))))"
    by (simp add: apiFetch_def error_of_eq)
  have 3: "\<not> ok r3 \<and> body r3 = Some JNull \<longrightarrow> apiFetch (Some r3) = Inl TypeError"
    by (simp add: apiFetch_def error_of_null)
  have 4: "xhr_status resp1 \<noteq> 200 \<longrightarrow>
        \<not> has_recommendations tn resp1
        \<and> recommendations (onload tn resp1 p) = recommendations p
        \<and> error (onload tn resp1 p) =
            (case parsed resp1 of
               Some (JObj kvs) \<Rightarrow> first_truthy [map_of kvs ''message'', map_of kvs ''error'']
                                     (JStr ''Server error occurred.'')
             | Some JNull \<Rightarrow> (if responseText resp1 \<noteq> [] then JStr (responseText resp1)
                               else JStr ''Server error occurred.'')
             | None \<Rightarrow> (if responseText resp1 \<noteq> [] then JStr (responseText resp1)
                               else JStr ''Server error occurred.'')
             | Some other \<Rightarrow> JStr ''Server error occurred.'')"
    using onload_error_text [of resp1 tn p] onload_not_200_keeps [of resp1 tn p]
    by (simp add: has_recommendations_def)
  have 5: "has_recommendations tn resp2 \<longrightarrow>
        xhr_status resp2 = 200 \<and> error (onload tn resp2 p) = error p
        \<and> Some (recommendations (onload tn resp2 p)) = opt_prop (parsed resp2) ''recommendations''"
    using onload_success [of tn resp2 p] by blast
  from 1 2 3 4 5 show ?thesis by blast
qed

theorem completed_exchange_outcome_witness:
  \<open>apiFetch (Some \<lparr>status = 200, statusText = ''OK'', body = Some (JArr [])\<rparr>) = Inr (JArr [])
   \<and> apiFetch (Some \<lparr>status = 422, statusText = ''Unprocessable Entity'',
        body = Some (JObj [(''detail'', JArr [JObj [(''msg'', JStr ''field required'')]])])\<rparr>)
      = Inl (Error (JStr ''field required''))
   \<and> apiFetch (Some \<lparr>status = 500, statusText = ''Internal Server Error'', body = Some JNull\<rparr>)
      = Inl TypeError
   \<and> error (onload (\<lambda>v. None)
        \<lparr>xhr_status = 500, responseText = ''{"error":"down"}'',
         parsed = Some (JObj [(''error'', JStr ''down'')])\<rparr> (ui initial_world)) = JStr ''down''
   \<and> recommendations (onload (\<lambda>v. None)
        \<lparr>xhr_status = 200, responseText = ''{"recommendations":[1]}'',
         parsed = Some (JObj [(''recommendations'', JArr [JNum 1])])\<rparr> (ui initial_world))
      = JArr [JNum 1]\<close>
  using completed_exchange_outcome
    [of \<open>\<lparr>status = 200, statusText = ''OK'', body = Some (JArr [])\<rparr>\<close>
        \<open>\<lparr>status = 422, statusText = ''Unprocessable Entity'',
          body = Some (JObj [(''detail'', JArr [JObj [(''msg'', JStr ''field required'')]])])\<rparr>\<close>
        \<open>\<lparr>status = 500, statusText = ''Internal Server Error'', body = Some JNull\<rparr>\<close>
        \<open>\<lparr>xhr_status = 500, responseText = ''{"error":"down"}'',
          parsed = Some (JObj [(''error'', JStr ''down'')])\<rparr>\<close>
        \<open>\<lambda>v. None\<close> \<open>ui initial_world\<close>
        \<open>\<lparr>xhr_status = 200, responseText = ''{"recommendations":[1]}'',
          parsed = Some (JObj [(''recommendations'', JArr [JNum 1])])\<rparr>\<close>]
  by (simp add: ok_def error_body_def has_recommendations_def)


section \<open>Upload sessions\<close>



lemma staging_keeps:
  "abortController (handleFilesSelected stamp sel p) = abortController p"
  "isUploading (handleFilesSelected stamp sel p) = isUploading p"
  "uploadProgress (handleFilesSelected stamp sel p) = uploadProgress p"
  "recommendations (handleFilesSelected stamp sel p) = recommendations p"
  "explanation (handleFilesSelected stamp sel p) = explanation p"
  "abortController (handleConfirmLargeFiles stamp p) = abortController p"
  "isUploading (handleConfirmLargeFiles stamp p) = isUploading p"
  "uploadProgress (handleConfirmLargeFiles stamp p) = uploadProgress p"
  "recommendations (handleConfirmLargeFiles stamp p) = recommendations p"
  "explanation (handleConfirmLargeFiles stamp p) = explanation p"
  "abortController (handleCancelLargeFiles p) = abortController p"
  "isUploading (handleCancelLargeFiles p) = isUploading p"
  "uploadProgress (handleCancelLargeFiles p) = uploadProgress p"
  "recommendations (handleCancelLargeFiles p) = recommendations p"
  "explanation (handleCancelLargeFiles p) = explanation p"
  "abortController (handleRemoveFile ident p) = abortController p"
  "isUploading (handleRemoveFile ident p) = isUploading p"
  "uploadProgress (handleRemoveFile ident p) = uploadProgress p"
  "recommendations (handleRemoveFile ident p) = recommendations p"
  "explanation (handleRemoveFile ident p) = explanation p"
  by (simp_all add: handleFilesSelected_def handleConfirmLargeFiles_def handleCancelLargeFiles_def
        handleRemoveFile_def Let_def split: prod.splits)

lemma onload_flags:
  "\<not> isUploading (onload tn resp p)" "\<not> abortController (onload tn resp p)"
  "uploadProgress (onload tn resp p) = uploadProgress p"
  by (simp_all add: onload_def Let_def split: option.splits sum.splits)

lemma deliver_idle:
  assumes "idle w" and "e \<noteq> ClickUpload"
  shows "snd (deliver canned tn e w) = [] \<and> session_view (fst (deliver canned tn e w)) = session_view w"
  using assms
  by (cases e) (simp_all add: idle_def session_view_def staging_keeps handleCancelUpload_def)

lemma idle_view: "session_view w' = session_view w \<Longrightarrow> idle w' = idle w"
  by (simp add: session_view_def idle_def)

lemma run_Cons:
  "run canned tn (e # es) w =
     (fst (run canned tn es (fst (deliver canned tn e w))),
      snd (deliver canned tn e w) @ snd (run canned tn es (fst (deliver canned tn e w))))"
  by (simp split: prod.splits)

lemma run_idle:
  assumes "idle w" and "ClickUpload \<notin> set es"
  shows "snd (run canned tn es w) = [] \<and> session_view (fst (run canned tn es w)) = session_view w"
  using assms
proof (induction es arbitrary: w)
  case Nil
  then show ?case by simp
next
  case (Cons e es)
  let ?w1 = "fst (deliver canned tn e w)"
  from Cons.prems have e: "e \<noteq> ClickUpload" and es: "ClickUpload \<notin> set es" by auto
  have step: "snd (deliver canned tn e w) = []" "session_view ?w1 = session_view w"
    using deliver_idle [OF Cons.prems(1) e, of canned tn] by blast+
  have "idle ?w1" using idle_view [OF step(2)] Cons.prems(1) by blast
  from Cons.IH [OF this es]
  have rest: "snd (run canned tn es ?w1) = []"
    "session_view (fst (run canned tn es ?w1)) = session_view ?w1" by blast+
  show ?case unfolding run_Cons using step rest by (simp del: run.simps)
qed


lemma outcomes_append: "outcomes (xs @ ys) = outcomes xs @ outcomes ys"
  by (induction xs rule: outcomes.induct) auto

lemma ticks_append: "ticks (xs @ ys) = ticks xs @ ticks ys"
  by (induction xs rule: ticks.induct) auto

lemma only_ticks: "outcomes xs = [] \<Longrightarrow> \<exists>ts. xs = map Tick ts"
proof (induction xs rule: outcomes.induct)
  case 1
  then show ?case by simp
next
  case (2 t rest)
  then obtain ts where "rest = map Tick ts" by auto
  then have "Tick t # rest = map Tick (t # ts)" by simp
  then show ?case by (rule exI)
next
  case (3 x rest)
  then show ?case by simp
qed

lemma outcome_in_set: "Outcome x \<in> set xs \<Longrightarrow> outcomes xs \<noteq> []"
  by (induction xs rule: outcomes.induct) auto

lemma ticks_map_Tick: "ticks (map Tick ts) = ts" "outcomes (map Tick ts) = []"
  by (induction ts) auto

lemma page_inv_initial: "page_inv initial_world"
  by (simp add: page_inv_def initial_world_def)

lemma shape_one: "\<exists>ts x. [Outcome y] = map Tick ts @ [Outcome x]"
  by (rule exI [of _ "[]"]) simp

lemma shape_two: "\<exists>ts x. [Tick t, Outcome y] = map Tick ts @ [Outcome x]"
  by (rule exI [of _ "[t]"]) simp

lemma shape_tick: "\<exists>ts. [Tick t] = map Tick ts"
  by (rule exI [of _ "[t]"]) simp

lemma deliver_step:
  assumes "page_inv w" and "e \<noteq> ClickUpload"
  shows "page_inv (fst (deliver canned tn e w)) \<and>
         (outcomes (snd (deliver canned tn e w)) = [] \<or>
          (\<exists>ts x. snd (deliver canned tn e w) = map Tick ts @ [Outcome x]
               \<and> idle (fst (deliver canned tn e w))))"
proof (cases "transport w")
  case Idle
  with assms show ?thesis
    by (cases e) (simp_all add: page_inv_def staging_keeps handleCancelUpload_def)
next
  case (MockLoop i fs)
  with assms show ?thesis
    by (cases e)
       (simp_all add: page_inv_def idle_def staging_keeps handleCancelUpload_def mock_tick_def
          Let_def shape_two shape_tick)
next
  case (XhrOpen fs)
  with assms show ?thesis
    by (cases e)
       (simp_all add: page_inv_def idle_def staging_keeps handleCancelUpload_def onprogress_def
          onload_flags onerror_def onabort_def shape_one)
qed

lemma deliver_upload_inv:
  assumes "page_inv w"
  shows "page_inv (fst (deliver canned tn ClickUpload w)) \<and> snd (deliver canned tn ClickUpload w) = []"
  using assms
  by (cases "transport w") (auto simp: page_inv_def canUpload_def handleUpload_def Let_def)

lemma run_shape:
  assumes "page_inv w" and "ClickUpload \<notin> set es"
  shows "page_inv (fst (run canned tn es w)) \<and>
         (outcomes (snd (run canned tn es w)) = [] \<or>
          (\<exists>ts x. snd (run canned tn es w) = map Tick ts @ [Outcome x]
               \<and> idle (fst (run canned tn es w))))"
  using assms
proof (induction es arbitrary: w)
  case Nil
  then show ?case by simp
next
  case (Cons e es)
  let ?w1 = "fst (deliver canned tn e w)" and ?o1 = "snd (deliver canned tn e w)"
  let ?w2 = "fst (run canned tn es ?w1)" and ?o2 = "snd (run canned tn es ?w1)"
  from Cons.prems have e: "e \<noteq> ClickUpload" and es: "ClickUpload \<notin> set es" by auto
  from deliver_step [OF Cons.prems(1) e, of canned tn]
  have inv1: "page_inv ?w1"
    and o1: "outcomes ?o1 = [] \<or> (\<exists>ts x. ?o1 = map Tick ts @ [Outcome x] \<and> idle ?w1)"
    by blast+
  from Cons.IH [OF inv1 es]
  have inv2: "page_inv ?w2"
    and o2: "outcomes ?o2 = [] \<or> (\<exists>ts x. ?o2 = map Tick ts @ [Outcome x] \<and> idle ?w2)"
    by blast+
  have r: "fst (run canned tn (e # es) w) = ?w2" "snd (run canned tn (e # es) w) = ?o1 @ ?o2"
    by (simp_all add: run_Cons del: run.simps)
  from o1 have "outcomes (?o1 @ ?o2) = [] \<or>
          (\<exists>ts x. ?o1 @ ?o2 = map Tick ts @ [Outcome x] \<and> idle ?w2)"
  proof
    assume none: "outcomes ?o1 = []"
    then obtain t1 where t1: "?o1 = map Tick t1" using only_ticks by blast
    from o2 show ?thesis
    proof
      assume "outcomes ?o2 = []"
      with none show ?thesis by (simp only: outcomes_append append_Nil simp_thms)
    next
      assume "\<exists>ts x. ?o2 = map Tick ts @ [Outcome x] \<and> idle ?w2"
      then obtain t2 x where x: "?o2 = map Tick t2 @ [Outcome x]" and i: "idle ?w2" by blast
      have "?o1 @ ?o2 = map Tick (t1 @ t2) @ [Outcome x]"
        unfolding t1 x by simp
      with i show ?thesis by blast
    qed
  next
    assume "\<exists>ts x. ?o1 = map Tick ts @ [Outcome x] \<and> idle ?w1"
    then obtain t1 x where x: "?o1 = map Tick t1 @ [Outcome x]" and i: "idle ?w1" by blast
    from run_idle [OF i es, of canned tn]
    have e2: "?o2 = []" and v: "session_view ?w2 = session_view ?w1" by blast+
    from v i have i2: "idle ?w2" using idle_view by blast
    have "?o1 @ ?o2 = map Tick t1 @ [Outcome x]" unfolding e2 x by simp
    with i2 show ?thesis by blast
  qed
  then show ?case unfolding r using inv2 by blast
qed


lemma page_inv_run: "page_inv w \<Longrightarrow> page_inv (fst (run canned tn es w))"
proof (induction es arbitrary: w)
  case Nil
  then show ?case by simp
next
  case (Cons e es)
  have "page_inv (fst (deliver canned tn e w))"
  proof (cases "e = ClickUpload")
    case True
    with deliver_upload_inv [OF Cons.prems, of canned tn] show ?thesis by blast
  next
    case False
    with deliver_step [OF Cons.prems False, of canned tn] show ?thesis by blast
  qed
  from Cons.IH [OF this] show ?case by (simp add: run_Cons del: run.simps deliver.simps)
qed

lemma cancel_idle: "\<not> abortController (ui w) \<Longrightarrow> deliver canned tn ClickCancel w = (w, [])"
  by (simp add: handleCancelUpload_def)

lemma staged_world_eq:
  "staged_world =
     \<lparr>ui = \<lparr>files = [\<lparr>fm_file = \<lparr>file_name = ''a.csv'', file_type = ''text/csv'', file_size = 1024\<rparr>,
                       fm_id = ''a.csv-1-0.5'', fm_name = ''a.csv'', fm_size = 1024\<rparr>],
             isUploading = False, uploadProgress = no_progress,
             recommendations = JArr [], explanation = JStr [], error = JStr [],
             mockMode = False, abortController = False, showLargeFileWarning = False,
             pendingLargeFiles = []\<rparr>,
      transport = Idle\<rparr>"
  by (simp add: staged_world_def initial_world_def handleFilesSelected_def isCSV_def
        MAX_FILE_SIZE_def with_meta_def)


text \<open>
  C3. In a session (the events after one click on the upload button, with no further
  click on it) at most one outcome is delivered, whatever the events and their order.
  When one is delivered, nothing follows it: the observations are progress values and
  then that outcome. From then on a click on cancel changes nothing and delivers nothing.
  The browser's part, that a request answers with \<open>load\<close>, \<open>error\<close> or \<open>abort\<close> only
  while it is in flight, is in \<open>deliver\<close>; the page's part is that every handler
  clears the controller and that cancel looks at it.
\<close>

theorem one_terminal_outcome:
  assumes "page_inv w" and "ClickUpload \<notin> set es"
  shows "length (outcomes (snd (run canned tn (ClickUpload # es) w))) \<le> 1
     \<and> (\<forall>x. Outcome x \<in> set (snd (run canned tn (ClickUpload # es) w)) \<longrightarrow>
          snd (run canned tn (ClickUpload # es) w)
            = map Tick (ticks (snd (run canned tn (ClickUpload # es) w))) @ [Outcome x]
          \<and> deliver canned tn ClickCancel (fst (run canned tn (ClickUpload # es) w))
            = (fst (run canned tn (ClickUpload # es) w), []))"
proof -
  let ?w1 = "fst (deliver canned tn ClickUpload w)"
  let ?w2 = "fst (run canned tn es ?w1)" and ?o2 = "snd (run canned tn es ?w1)"
  from deliver_upload_inv [OF assms(1), of canned tn]
  have inv1: "page_inv ?w1" and o1: "snd (deliver canned tn ClickUpload w) = []" by blast+
  have r: "fst (run canned tn (ClickUpload # es) w) = ?w2"
    "snd (run canned tn (ClickUpload # es) w) = ?o2"
    using o1 by (simp_all add: run_Cons del: run.simps deliver.simps)
  from run_shape [OF inv1 assms(2), of canned tn]
  have "outcomes ?o2 = [] \<or> (\<exists>ts x. ?o2 = map Tick ts @ [Outcome x] \<and> idle ?w2)" by blast
  then have "length (outcomes ?o2) \<le> 1
     \<and> (\<forall>x. Outcome x \<in> set ?o2 \<longrightarrow>
          ?o2 = map Tick (ticks ?o2) @ [Outcome x]
          \<and> deliver canned tn ClickCancel ?w2 = (?w2, []))"
  proof
    assume none: "outcomes ?o2 = []"
    then have "\<forall>x. Outcome x \<notin> set ?o2" using outcome_in_set by blast
    with none show ?thesis by simp
  next
    assume "\<exists>ts x. ?o2 = map Tick ts @ [Outcome x] \<and> idle ?w2"
    then obtain ts y where y: "?o2 = map Tick ts @ [Outcome y]" and i: "idle ?w2" by blast
    have len: "length (outcomes ?o2) \<le> 1"
      unfolding y by (simp add: outcomes_append ticks_map_Tick)
    have tk: "ticks (map Tick ts @ [Outcome y]) = ts"
      by (simp add: ticks_append ticks_map_Tick)
    have mem: "x = y" if "Outcome x \<in> set (map Tick ts @ [Outcome y])" for x
      using that by auto
    have c: "deliver canned tn ClickCancel ?w2 = (?w2, [])"
      using i by (simp add: idle_def cancel_idle del: deliver.simps)
    show ?thesis
      using len c mem unfolding y tk by blast
  qed
  then show ?thesis unfolding r .
qed



theorem one_terminal_outcome_witness:
  \<open>page_inv staged_world
   \<and> ClickUpload \<notin> set [XhrProgress True 1 2,
        XhrLoad \<lparr>xhr_status = 200, responseText = ''{"recommendations":[1]}'',
                 parsed = Some (JObj [(''recommendations'', JArr [JNum 1])])\<rparr>,
        ClickCancel, XhrError, TimerFired]
   \<and> outcomes (snd (run demo_canned (\<lambda>v. None)
        (ClickUpload # [XhrProgress True 1 2,
           XhrLoad \<lparr>xhr_status = 200, responseText = ''{"recommendations":[1]}'',
                    parsed = Some (JObj [(''recommendations'', JArr [JNum 1])])\<rparr>,
           ClickCancel, XhrError, TimerFired]) staged_world)) = [Success]
   \<and> deliver demo_canned (\<lambda>v. None) ClickCancel
        (fst (run demo_canned (\<lambda>v. None)
          (ClickUpload # [XhrProgress True 1 2,
             XhrLoad \<lparr>xhr_status = 200, responseText = ''{"recommendations":[1]}'',
                      parsed = Some (JObj [(''recommendations'', JArr [JNum 1])])\<rparr>,
             ClickCancel, XhrError, TimerFired]) staged_world))
      = (fst (run demo_canned (\<lambda>v. None)
          (ClickUpload # [XhrProgress True 1 2,
             XhrLoad \<lparr>xhr_status = 200, responseText = ''{"recommendations":[1]}'',
                      parsed = Some (JObj [(''recommendations'', JArr [JNum 1])])\<rparr>,
             ClickCancel, XhrError, TimerFired]) staged_world), [])\<close>
  using one_terminal_outcome
    [of staged_world
        \<open>[XhrProgress True 1 2,
          XhrLoad \<lparr>xhr_status = 200, responseText = ''{"recommendations":[1]}'',
                   parsed = Some (JObj [(''recommendations'', JArr [JNum 1])])\<rparr>,
          ClickCancel, XhrError, TimerFired]\<close> demo_canned \<open>\<lambda>v. None\<close>]
  by (simp add: staged_world_eq page_inv_def canUpload_def handleUpload_def Let_def
        onprogress_def onload_def has_recommendations_def handleCancelUpload_def)


section \<open>Mock uploads\<close>

lemma deliver_no_controller:
  assumes "\<not> abortController (ui w)" and "e \<noteq> ClickUpload"
  shows "\<not> abortController (ui (fst (deliver canned tn e w)))"
  using assms
  by (cases e; cases "transport w")
     (simp_all add: staging_keeps handleCancelUpload_def mock_tick_def Let_def onprogress_def
        onload_flags onerror_def)

lemma deliver_mock_other:
  assumes "transport w = MockLoop i fs" and "\<not> abortController (ui w)"
    and "e \<noteq> ClickUpload" and "e \<noteq> TimerFired"
  shows "snd (deliver canned tn e w) = [] \<and> transport (fst (deliver canned tn e w)) = MockLoop i fs"
  using assms by (cases e) (simp_all add: handleCancelUpload_def)

lemma deliver_mock_timer:
  assumes "transport w = MockLoop i fs" and "\<not> abortController (ui w)"
  shows "(i + 10 \<le> 100 \<longrightarrow>
            snd (deliver canned tn TimerFired w) = [Tick (progress_at fs i)] \<and>
            transport (fst (deliver canned tn TimerFired w)) = MockLoop (i + 10) fs)
       \<and> (\<not> i + 10 \<le> 100 \<longrightarrow>
            snd (deliver canned tn TimerFired w) = [Tick (progress_at fs i), Outcome Success] \<and>
            idle (fst (deliver canned tn TimerFired w)))"
  using assms by (simp add: mock_tick_def Let_def idle_def)

lemma mock_run:
  assumes "transport w = MockLoop i fs" and "\<not> abortController (ui w)"
    and "ClickUpload \<notin> set es"
  shows "snd (run canned tn es w) = mock_trace fs i (length (filter (\<lambda>e. e = TimerFired) es))"
  using assms
proof (induction es arbitrary: w i)
  case Nil
  then show ?case by simp
next
  case (Cons e es)
  let ?w1 = "fst (deliver canned tn e w)" and ?o1 = "snd (deliver canned tn e w)"
  from Cons.prems have e: "e \<noteq> ClickUpload" and es: "ClickUpload \<notin> set es" by auto
  have nc: "\<not> abortController (ui ?w1)"
    by (rule deliver_no_controller [OF Cons.prems(2) e])
  have r: "snd (run canned tn (e # es) w) = ?o1 @ snd (run canned tn es ?w1)"
    by (simp add: run_Cons del: run.simps)
  show ?case
  proof (cases "e = TimerFired")
    case False
    from deliver_mock_other [OF Cons.prems(1,2) e False, of canned tn]
    have o1: "?o1 = []" and t1: "transport ?w1 = MockLoop i fs" by blast+
    from Cons.IH [OF t1 nc es] show ?thesis
      unfolding r o1 using False by simp
  next
    case True
    note step = deliver_mock_timer [OF Cons.prems(1,2), of canned tn]
    show ?thesis
    proof (cases "i + 10 \<le> 100")
      case le: True
      with step True have o1: "?o1 = [Tick (progress_at fs i)]"
        and t1: "transport ?w1 = MockLoop (i + 10) fs" by blast+
      from Cons.IH [OF t1 nc es] show ?thesis
        unfolding r o1 using True le by simp
    next
      case gt: False
      with step True have o1: "?o1 = [Tick (progress_at fs i), Outcome Success]"
        and i1: "idle ?w1" by blast+
      from run_idle [OF i1 es, of canned tn] have "snd (run canned tn es ?w1) = []" by blast
      then show ?thesis unfolding r o1 using True gt by simp
    qed
  qed
qed

lemma run_no_controller:
  assumes "\<not> abortController (ui w)" and "ClickUpload \<notin> set es"
  shows "\<not> abortController (ui (fst (run canned tn es w)))"
  using assms
proof (induction es arbitrary: w)
  case Nil
  then show ?case by simp
next
  case (Cons e es)
  from Cons.prems have e: "e \<noteq> ClickUpload" and es: "ClickUpload \<notin> set es" by auto
  have "\<not> abortController (ui (fst (deliver canned tn e w)))"
    by (rule deliver_no_controller [OF Cons.prems(1) e])
  from Cons.IH [OF this es] show ?case by (simp add: run_Cons del: run.simps)
qed

lemma mock_trace_no_abort: "Outcome Aborted \<notin> set (mock_trace fs i n)"
  by (induction n arbitrary: i) auto

lemma mock_trace_eleven:
  "mock_trace fs 0 (Suc (Suc (Suc (Suc (Suc (Suc (Suc (Suc (Suc (Suc (Suc m)))))))))))
     = map (\<lambda>k. Tick (progress_at fs (10 * k))) [0..<11] @ [Outcome Success]"
  by (simp add: upt_conv_Cons)

lemma mock_trace_full:
  assumes "11 \<le> n"
  shows "mock_trace fs 0 n = map (\<lambda>k. Tick (progress_at fs (10 * k))) [0..<11] @ [Outcome Success]"
proof -
  from assms obtain m where "n = 11 + m" using le_Suc_ex by blast
  then have "n = Suc (Suc (Suc (Suc (Suc (Suc (Suc (Suc (Suc (Suc (Suc m))))))))))" by simp
  then show ?thesis using mock_trace_eleven by blast
qed

lemma upload_mock_begin:
  assumes "page_inv w" and "canUpload (ui w)" and "mockMode (ui w)"
  shows "transport (fst (deliver canned tn ClickUpload w)) = MockLoop 0 (files (ui w))
       \<and> \<not> abortController (ui (fst (deliver canned tn ClickUpload w)))
       \<and> snd (deliver canned tn ClickUpload w) = []"
  using assms
  by (cases "transport w") (auto simp: page_inv_def canUpload_def handleUpload_def Let_def)









text \<open>
  C10. A mock upload cannot be cancelled. From a page state that the events can reach,
  with the button enabled and mock mode on, the state holds no controller at any point of
  the session, so a click on cancel changes nothing and delivers nothing; what the
  session shows depends only on the number of timers that fired (the clicks on cancel
  can be left out), Aborted is never among it, and once eleven timers have fired it is
  the eleven progress values and then Success.
\<close>

theorem mock_upload_not_cancellable:
  assumes "page_inv w" and "canUpload (ui w)" and "mockMode (ui w)" and "ClickUpload \<notin> set es"
  shows "\<not> abortController (ui (fst (run canned tn (ClickUpload # es) w)))
     \<and> deliver canned tn ClickCancel (fst (run canned tn (ClickUpload # es) w))
         = (fst (run canned tn (ClickUpload # es) w), [])
     \<and> snd (run canned tn (ClickUpload # es) w)
         = mock_trace (files (ui w)) 0 (length (filter (\<lambda>e. e = TimerFired) es))
     \<and> snd (run canned tn (ClickUpload # es) w)
         = snd (run canned tn (ClickUpload # filter (\<lambda>e. e \<noteq> ClickCancel) es) w)
     \<and> Outcome Aborted \<notin> set (snd (run canned tn (ClickUpload # es) w))
     \<and> (11 \<le> length (filter (\<lambda>e. e = TimerFired) es) \<longrightarrow>
          snd (run canned tn (ClickUpload # es) w)
            = map (\<lambda>k. Tick (progress_at (files (ui w)) (10 * k))) [0..<11] @ [Outcome Success])"
proof -
  let ?w1 = "fst (deliver canned tn ClickUpload w)"
  let ?n = "length (filter (\<lambda>e. e = TimerFired) es)"
  let ?es' = "filter (\<lambda>e. e \<noteq> ClickCancel) es"
  from upload_mock_begin [OF assms(1,2,3), of canned tn]
  have t1: "transport ?w1 = MockLoop 0 (files (ui w))"
    and nc: "\<not> abortController (ui ?w1)"
    and o1: "snd (deliver canned tn ClickUpload w) = []" by blast+
  have r: "fst (run canned tn (ClickUpload # xs) w) = fst (run canned tn xs ?w1)"
    "snd (run canned tn (ClickUpload # xs) w) = snd (run canned tn xs ?w1)" for xs
    using o1 by (simp_all add: run_Cons del: run.simps deliver.simps)
  have es': "ClickUpload \<notin> set ?es'" using assms(4) by simp
  have n': "length (filter (\<lambda>e. e = TimerFired) ?es') = ?n"
    by (induction es) auto
  have a: "\<not> abortController (ui (fst (run canned tn es ?w1)))"
    by (rule run_no_controller [OF nc assms(4)])
  have b: "deliver canned tn ClickCancel (fst (run canned tn es ?w1)) = (fst (run canned tn es ?w1), [])"
    by (rule cancel_idle [OF a])
  have c: "snd (run canned tn es ?w1) = mock_trace (files (ui w)) 0 ?n"
    by (rule mock_run [OF t1 nc assms(4)])
  have c': "snd (run canned tn ?es' ?w1) = mock_trace (files (ui w)) 0 ?n"
    using mock_run [OF t1 nc es', of canned tn] unfolding n' .
  have d: "Outcome Aborted \<notin> set (snd (run canned tn es ?w1))"
    unfolding c by (rule mock_trace_no_abort)
  have e: "11 \<le> ?n \<longrightarrow> snd (run canned tn es ?w1)
            = map (\<lambda>k. Tick (progress_at (files (ui w)) (10 * k))) [0..<11] @ [Outcome Success]"
    unfolding c using mock_trace_full by blast
  show ?thesis unfolding r using a b c c' d e by simp
qed

theorem mock_upload_not_cancellable_witness:
  "page_inv (staged_world\<lparr>ui := (ui staged_world)\<lparr>mockMode := True\<rparr>\<rparr>)
   \<and> canUpload (ui (staged_world\<lparr>ui := (ui staged_world)\<lparr>mockMode := True\<rparr>\<rparr>))
   \<and> mockMode (ui (staged_world\<lparr>ui := (ui staged_world)\<lparr>mockMode := True\<rparr>\<rparr>))
   \<and> ClickUpload \<notin> set [TimerFired, ClickCancel, TimerFired, TimerFired, ClickCancel,
         TimerFired, TimerFired, TimerFired, TimerFired, TimerFired, TimerFired, TimerFired,
         TimerFired, ClickCancel]
   \<and> outcomes (snd (run demo_canned (\<lambda>v. None)
        (ClickUpload # [TimerFired, ClickCancel, TimerFired, TimerFired, ClickCancel,
           TimerFired, TimerFired, TimerFired, TimerFired, TimerFired, TimerFired, TimerFired,
           TimerFired, ClickCancel])
        (staged_world\<lparr>ui := (ui staged_world)\<lparr>mockMode := True\<rparr>\<rparr>))) = [Success]
   \<and> map overall (ticks (snd (run demo_canned (\<lambda>v. None)
        (ClickUpload # [TimerFired, ClickCancel, TimerFired, TimerFired, ClickCancel,
           TimerFired, TimerFired, TimerFired, TimerFired, TimerFired, TimerFired, TimerFired,
           TimerFired, ClickCancel])
        (staged_world\<lparr>ui := (ui staged_world)\<lparr>mockMode := True\<rparr>\<rparr>))))
      = [0, 10, 20, 30, 40, 50, 60, 70, 80, 90, 100]"
  using mock_upload_not_cancellable
    [of "staged_world\<lparr>ui := (ui staged_world)\<lparr>mockMode := True\<rparr>\<rparr>"
        "[TimerFired, ClickCancel, TimerFired, TimerFired, ClickCancel,
          TimerFired, TimerFired, TimerFired, TimerFired, TimerFired, TimerFired, TimerFired,
          TimerFired, ClickCancel]" demo_canned "\<lambda>v. None"]
  by (simp add: staged_world_eq page_inv_def canUpload_def upt_conv_Cons progress_at_def
           del: run.simps deliver.simps)

section \<open>Progress\<close>

subsection \<open>The arithmetic of doubles\<close>






lemma p2_less: "i < j \<Longrightarrow> (2::real) powi i < 2 powi j"
  by (rule power_int_strict_increasing) simp_all




lemma nearest_even_mono: "x \<le> y \<Longrightarrow> nearest_even x \<le> nearest_even y"
proof -
  assume xy: "x \<le> y"
  then have fl: "\<lfloor>x\<rfloor> \<le> \<lfloor>y\<rfloor>" by (rule floor_mono)
  have ux: "nearest_even x \<le> \<lfloor>x\<rfloor> + 1" and ly: "\<lfloor>y\<rfloor> \<le> nearest_even y"
    by (simp_all add: nearest_even_def)
  show ?thesis
  proof (cases "\<lfloor>x\<rfloor> < \<lfloor>y\<rfloor>")
    case True
    with ux ly show ?thesis by linarith
  next
    case False
    with fl have eq: "\<lfloor>x\<rfloor> = \<lfloor>y\<rfloor>" by simp
    with xy have "frac x \<le> frac y" by (simp add: frac_def)
    with eq show ?thesis by (auto simp: nearest_even_def)
  qed
qed


lemma rne_nearest:
  assumes "0 < b"
  shows "rne a b = nearest_even (real_of_int a / real_of_int b)"
proof -
  let ?x = "real_of_int a / real_of_int b"
  have fl: "\<lfloor>?x\<rfloor> = a div b" by (rule floor_divide_of_int_eq)
  have "real_of_int a = real_of_int (a div b) * real_of_int b + real_of_int (a mod b)"
    by (metis div_mult_mod_eq of_int_add of_int_mult)
  then have "?x = real_of_int (a div b) + real_of_int (a mod b) / real_of_int b"
    using assms by (simp add: field_simps)
  then have fr: "frac ?x = real_of_int (a mod b) / real_of_int b"
    using fl by (simp add: frac_def)
  have rb: "0 < real_of_int b" using assms by simp
  have lt: "frac ?x < 1 / 2 \<longleftrightarrow> 2 * (a mod b) < b"
  proof -
    have "frac ?x < 1 / 2 \<longleftrightarrow> 2 * real_of_int (a mod b) < real_of_int b"
      unfolding fr using rb by (simp add: field_simps)
    also have "\<dots> \<longleftrightarrow> 2 * (a mod b) < b"
      by (metis of_int_less_iff of_int_mult of_int_numeral)
    finally show ?thesis .
  qed
  have gt: "1 / 2 < frac ?x \<longleftrightarrow> b < 2 * (a mod b)"
  proof -
    have "1 / 2 < frac ?x \<longleftrightarrow> real_of_int b < 2 * real_of_int (a mod b)"
      unfolding fr using rb by (simp add: field_simps)
    also have "\<dots> \<longleftrightarrow> b < 2 * (a mod b)"
      by (metis of_int_less_iff of_int_mult of_int_numeral)
    finally show ?thesis .
  qed
  show ?thesis
    unfolding rne_def nearest_even_def Let_def lt gt fl by simp
qed

lemma rne_mono:
  assumes "0 < b" and "0 < b'"
    and "real_of_int a / real_of_int b \<le> real_of_int a' / real_of_int b'"
  shows "rne a b \<le> rne a' b'"
  unfolding rne_nearest [OF assms(1)] rne_nearest [OF assms(2)]
  by (rule nearest_even_mono [OF assms(3)])


lemma to_double_zero: "to_double (0, b) = (0, 1)"
  by simp







declare to_double.simps [simp del]












lemma percent_zero: "percent 0 T = 0"
  by (simp add: percent_def round_percent_def math_round_def times_double_def divide_double_def
        to_double.simps)

subsection \<open>Progress events\<close>













end
